theory Spec2Isabelle
  imports Complex_Main "HOL-Library.Multiset"
begin

section \<open>The inventory-alert pipeline of the daily Telegram alerts function\<close>

text \<open>
  The development embeds \<^verbatim>\<open>analyzeInventory\<close>, \<^verbatim>\<open>formatAlertMessage\<close>,
  \<^verbatim>\<open>getStoreSettings\<close>, \<^verbatim>\<open>processStoreAlerts\<close> and \<^verbatim>\<open>dailyTelegramAlerts\<close>
  of the alerts module. Times are JavaScript time values: milliseconds since the epoch, as
  \<^typ>\<open>int\<close>; an invalid date (time value NaN) is \<^term>\<open>None\<close>.
\<close>

subsection \<open>The platform: what the JavaScript runtime supplies\<close>

text \<open>
  The \<^verbatim>\<open>Date\<close> constructor, \<^verbatim>\<open>setHours(0, 0, 0, 0)\<close> (which depends on the time zone
  of the process) and \<^verbatim>\<open>toLocaleDateString\<close> are not code of the repository; they are
  parameters of the model.
  \<^item> \<open>newDate s\<close> is \<^verbatim>\<open>new Date(s)\<close>: \<open>Inr (Some t)\<close> a valid date, \<open>Inr None\<close> an
    invalid one, \<open>Inl e\<close> a thrown exception (the source guards the call with \<^verbatim>\<open>try\<close>);
  \<^item> \<open>setHours0 t\<close> is the start of the local day of \<open>t\<close>, \<open>None\<close> when the result is
    outside the range of time values;
  \<^item> \<open>formatDMY\<close> is \<^verbatim>\<open>toLocaleDateString('en-IN', {day, month: 'short', year, timeZone:
    'Asia/Kolkata'})\<close> and \<open>formatDM\<close> the same without the year;
  \<^item> \<open>exponentString n\<close> is the text of a number of magnitude \<open>10^21\<close> or more in a
    template, which the language writes with an exponent (\<^verbatim>\<open>1e+21\<close>).
\<close>

datatype js_error = JsError string

record platform =
  newDate :: "string \<Rightarrow> js_error + int option"
  setHours0 :: "int \<Rightarrow> int option"
  formatDMY :: "int \<Rightarrow> string"
  formatDM :: "int \<Rightarrow> string"
  exponentString :: "int \<Rightarrow> string"

subsection \<open>Data model\<close>

text \<open>
  An inventory item is a document of the \<^verbatim>\<open>inventory\<close> collection with its id; every
  field of the document may be absent. The web client stores \<^verbatim>\<open>expiryDate\<close> as the
  string of a date input and \<^verbatim>\<open>quantity\<close> as a number.
\<close>

record item =
  itemId :: string
  name :: "string option"
  quantity :: "int option"
  expiryDate :: "string option"

record expired_entry =
  expired_name :: string
  daysExpired :: int
  expired_expiryDate :: int

record near_entry =
  near_name :: string
  daysUntilExpiry :: int
  near_expiryDate :: int

record low_entry =
  low_name :: string
  low_quantity :: int

record analysis =
  expired :: "expired_entry list"
  nearExpiry :: "near_entry list"
  lowStock :: "low_entry list"

subsection \<open>The classifier: \<^verbatim>\<open>analyzeInventory\<close>\<close>

text \<open>\<^verbatim>\<open>item.name || 'Unnamed Item'\<close>: an absent or empty name is falsy.\<close>

definition nameOrDefault :: "item \<Rightarrow> string" where
  "nameOrDefault it =
     (case name it of None \<Rightarrow> ''Unnamed Item''
      | Some n \<Rightarrow> if n = [] then ''Unnamed Item'' else n)"

text \<open>\<^verbatim>\<open>item.quantity || 0\<close>: an absent quantity and the quantity 0 are falsy.\<close>

definition quantityOrZero :: "item \<Rightarrow> int" where
  "quantityOrZero it =
     (case quantity it of None \<Rightarrow> 0 | Some q \<Rightarrow> if q = 0 then 0 else q)"

text \<open>
  \<^verbatim>\<open>Math.ceil(ms / (1000 * 60 * 60 * 24))\<close>. Time values lie within \<open>8.64e15\<close> of the
  epoch, so the difference of two of them and its quotient by the length of a day are
  below \<open>2^53\<close> and \<open>2^27\<close>: the double-precision quotient of a difference that is not a
  whole number of days stays strictly between the neighbouring integers, and the ceiling
  is the exact one.
\<close>

definition oneDayMs :: int where
  "oneDayMs = 1000 * 60 * 60 * 24"

definition ceilDays :: "int \<Rightarrow> int" where
  "ceilDays ms = - ((- ms) div oneDayMs)"

text \<open>
  The value of \<^verbatim>\<open>daysUntilExpiry\<close> for an item, when the guarded block computes a number:
  the field is truthy, the constructor returns, and neither date is invalid.
\<close>

definition daysUntil :: "platform \<Rightarrow> int option \<Rightarrow> item \<Rightarrow> (int \<times> int) option" where
  "daysUntil plat today it =
     (case expiryDate it of
        None \<Rightarrow> None
      | Some raw \<Rightarrow>
          if raw = [] then None
          else (case newDate plat raw of
                  Inl err \<Rightarrow> None
                | Inr None \<Rightarrow> None
                | Inr (Some t) \<Rightarrow>
                    (case setHours0 plat t of
                       None \<Rightarrow> None
                     | Some e \<Rightarrow>
                         (case today of
                            None \<Rightarrow> None
                          | Some td \<Rightarrow> Some (ceilDays (e - td), e)))))"

text \<open>
  The body of the \<^verbatim>\<open>for (const item of inventory)\<close> loop, on the three arrays it pushes
  to. With an invalid date every comparison with NaN is false and nothing is pushed.
\<close>

definition classifyItem ::
  "platform \<Rightarrow> int option \<Rightarrow> int \<Rightarrow> int \<Rightarrow> analysis \<Rightarrow> item \<Rightarrow> analysis" where
  "classifyItem plat today expiryWarningDays lowStockThreshold acc it =
     (let acc1 =
            (case daysUntil plat today it of
               None \<Rightarrow> acc
             | Some (d, e) \<Rightarrow>
                 if d \<le> 0 then
                   acc\<lparr>expired := expired acc @
                     [\<lparr>expired_name = nameOrDefault it, daysExpired = \<bar>d\<bar>,
                       expired_expiryDate = e\<rparr>]\<rparr>
                 else if d \<le> expiryWarningDays then
                   acc\<lparr>nearExpiry := nearExpiry acc @
                     [\<lparr>near_name = nameOrDefault it, daysUntilExpiry = d,
                       near_expiryDate = e\<rparr>]\<rparr>
                 else acc);
          q = quantityOrZero it
      in if q \<le> lowStockThreshold then
           acc1\<lparr>lowStock := lowStock acc1 @
             [\<lparr>low_name = nameOrDefault it, low_quantity = q\<rparr>]\<rparr>
         else acc1)"

text \<open>
  \<^verbatim>\<open>Array.prototype.sort\<close> with a comparator: the language requires a stable sort, so for
  a consistent comparator the result is the one of insertion sort that puts an element
  before the first one it does not compare greater than.
\<close>

fun sortInsert :: "('a \<Rightarrow> 'a \<Rightarrow> int) \<Rightarrow> 'a \<Rightarrow> 'a list \<Rightarrow> 'a list" where
  "sortInsert cmp x [] = [x]"
| "sortInsert cmp x (y # ys) =
     (if cmp x y \<le> 0 then x # y # ys else y # sortInsert cmp x ys)"

definition arraySort :: "('a \<Rightarrow> 'a \<Rightarrow> int) \<Rightarrow> 'a list \<Rightarrow> 'a list" where
  "arraySort cmp xs = foldr (sortInsert cmp) xs []"

definition emptyAnalysis :: analysis where
  "emptyAnalysis = \<lparr>expired = [], nearExpiry = [], lowStock = []\<rparr>"

definition analyzeInventory ::
  "platform \<Rightarrow> int \<Rightarrow> item list \<Rightarrow> int \<Rightarrow> int \<Rightarrow> analysis" where
  "analyzeInventory plat now inventory expiryWarningDays lowStockThreshold =
     (let today = setHours0 plat now;
          acc = foldl (classifyItem plat today expiryWarningDays lowStockThreshold)
                  emptyAnalysis inventory
      in \<lparr>expired = arraySort (\<lambda>a b. daysExpired b - daysExpired a) (expired acc),
          nearExpiry = arraySort (\<lambda>a b. daysUntilExpiry a - daysUntilExpiry b) (nearExpiry acc),
          lowStock = arraySort (\<lambda>a b. low_quantity a - low_quantity b) (lowStock acc)\<rparr>)"

subsection \<open>The composer: \<^verbatim>\<open>formatAlertMessage\<close>\<close>

text \<open>
  Strings are byte strings. The marker literals are the bytes of the literals of the
  source file. \<open>${n}\<close> in a template renders an integer below \<open>10^21\<close> in magnitude in
  decimal, and a larger one with an exponent; the length of an array is below \<open>2^32\<close>.
\<close>

definition newline :: string where
  "newline = [CHR 0x0A]"

definition sirenMark :: string where
  "sirenMark = [CHR 0xC3, CHR 0xB0, CHR 0xC5, CHR 0xB8, CHR 0xC5, CHR 0xA1, CHR 0xC2, CHR 0xA8]"

definition crossMark :: string where
  "crossMark = [CHR 0xC3, CHR 0xA2, CHR 0xC5, CHR 0x92]"

definition redMark :: string where
  "redMark =
     [CHR 0xC3, CHR 0xB0, CHR 0xC5, CHR 0xB8, CHR 0xE2, CHR 0x80, CHR 0x9D, CHR 0xC2, CHR 0xB4]"

definition calendarMark :: string where
  "calendarMark =
     [CHR 0xC3, CHR 0xB0, CHR 0xC5, CHR 0xB8, CHR 0xE2, CHR 0x80, CHR 0x9C, CHR 0xE2, CHR 0x80,
      CHR 0xA6]"

definition orangeMark :: string where
  "orangeMark = [CHR 0xC3, CHR 0xB0, CHR 0xC5, CHR 0xB8, CHR 0xC5, CHR 0xB8, CHR 0xC2, CHR 0xA0]"

definition yellowMark :: string where
  "yellowMark = [CHR 0xC3, CHR 0xB0, CHR 0xC5, CHR 0xB8, CHR 0xC5, CHR 0xB8, CHR 0xC2, CHR 0xA1]"

definition packageMark :: string where
  "packageMark =
     [CHR 0xC3, CHR 0xB0, CHR 0xC5, CHR 0xB8, CHR 0xE2, CHR 0x80, CHR 0x9C, CHR 0xC2, CHR 0xA6]"

definition warningMark :: string where
  "warningMark =
     [CHR 0xC3, CHR 0xA2, CHR 0xC5, CHR 0xA1, CHR 0xC2, CHR 0xA0, CHR 0xC3, CHR 0xAF, CHR 0xC2,
      CHR 0xB8]"

definition pointMark :: string where
  "pointMark =
     [CHR 0xC3, CHR 0xB0, CHR 0xC5, CHR 0xB8, CHR 0xE2, CHR 0x80, CHR 0x98, CHR 0xE2, CHR 0x80,
      CHR 0xB0]"

function natToString :: "nat \<Rightarrow> string" where
  "natToString n =
     (if n < 10 then [''0123456789'' ! n]
      else natToString (n div 10) @ [''0123456789'' ! (n mod 10)])"
  by pat_completeness auto
termination
  by (relation "measure id") auto

declare natToString.simps [simp del]

definition intToString :: "platform \<Rightarrow> int \<Rightarrow> string" where
  "intToString plat i =
     (if \<bar>i\<bar> < 10 ^ 21
      then (if i < 0 then ''-'' @ natToString (nat (- i)) else natToString (nat i))
      else exponentString plat i)"

text \<open>\<^verbatim>\<open>day${n > 1 ? 's' : ''}\<close>\<close>

definition pluralDays :: "int \<Rightarrow> string" where
  "pluralDays n = '' day'' @ (if n > 1 then ''s'' else [])"

definition expiredLine :: "platform \<Rightarrow> expired_entry \<Rightarrow> string" where
  "expiredLine plat item =
     (let expiredText =
            (if daysExpired item = 0 then ''Expired today''
             else ''Expired '' @ intToString plat (daysExpired item) @ pluralDays (daysExpired item)
                    @ '' ago'')
      in redMark @ '' '' @ expired_name item @ '' - '' @ expiredText @ newline)"

definition nearLine :: "platform \<Rightarrow> near_entry \<Rightarrow> string" where
  "nearLine plat item =
     (let emoji = (if daysUntilExpiry item = 1 then redMark
                   else if daysUntilExpiry item \<le> 3 then orangeMark else yellowMark);
          dateStr = formatDM plat (near_expiryDate item)
      in emoji @ '' '' @ near_name item @ '' - Expires in '' @ intToString plat (daysUntilExpiry item)
           @ pluralDays (daysUntilExpiry item) @ '' ('' @ dateStr @ '')'' @ newline)"

definition lowLine :: "platform \<Rightarrow> low_entry \<Rightarrow> string" where
  "lowLine plat item =
     (let emoji = (if low_quantity item = 0 then redMark else warningMark);
          quantityText = (if low_quantity item = 0 then ''Out of stock''
                          else ''Only '' @ intToString plat (low_quantity item) @ '' left'')
      in emoji @ '' '' @ low_name item @ '' - '' @ quantityText @ newline)"

text \<open>\<^verbatim>\<open>_...and ${list.length - 10} more items_\<close>\<close>

definition moreItemsLine :: "nat \<Rightarrow> string" where
  "moreItemsLine n = ''_...and '' @ natToString n @ '' more items_'' @ newline"

definition expiredHeading :: "nat \<Rightarrow> string" where
  "expiredHeading n = crossMark @ '' *Expired Items ('' @ natToString n @ ''):*'' @ newline"

definition nearHeading :: "nat \<Rightarrow> string" where
  "nearHeading n = calendarMark @ '' *Expiring Soon ('' @ natToString n @ ''):*'' @ newline"

definition lowHeading :: "nat \<Rightarrow> string" where
  "lowHeading n = packageMark @ '' *Low Stock ('' @ natToString n @ ''):*'' @ newline"

text \<open>
  One \<^verbatim>\<open>if (list.length > 0) { ... }\<close> block of the composer, on the message built so
  far: the heading, the loop over \<^verbatim>\<open>list.slice(0, 10)\<close> that appends a line for each
  item, the line for the rest, and the empty line. The three blocks of the source differ in
  the heading and in the line of an item only.
\<close>

definition appendSection ::
  "(nat \<Rightarrow> string) \<Rightarrow> ('a \<Rightarrow> string) \<Rightarrow> string \<Rightarrow> 'a list \<Rightarrow> string" where
  "appendSection heading line message list =
     (if length list > 0 then
        (let message1 = message @ heading (length list);
             itemsToShow = take 10 list;
             message2 = foldl (\<lambda>m item. m @ line item) message1 itemsToShow;
             message3 = (if length list > 10
                         then message2 @ moreItemsLine (length list - 10) else message2)
         in message3 @ newline)
      else message)"

definition messageHeader :: "platform \<Rightarrow> int \<Rightarrow> string \<Rightarrow> string" where
  "messageHeader plat now storeName =
     (let date = formatDMY plat now
      in sirenMark @ '' *Daily Inventory Alert*'' @ newline @ storeName @ '' - '' @ date
           @ newline @ newline)"

definition messageFooter :: string where
  "messageFooter = pointMark @ '' [Open Dashboard](https://vyaparcopilot.web.app)''"

text \<open>
  The composer takes the store name and the three lists; the date of the header is the
  one of \<^verbatim>\<open>new Date()\<close> when the message is rendered, here the argument \<open>now\<close>.
\<close>

definition formatAlertMessage ::
  "platform \<Rightarrow> int \<Rightarrow> string \<Rightarrow> expired_entry list \<Rightarrow> near_entry list \<Rightarrow> low_entry list
     \<Rightarrow> string" where
  "formatAlertMessage plat now storeName expiredList nearList lowList =
     (let message0 = messageHeader plat now storeName;
          message1 = appendSection expiredHeading (expiredLine plat) message0 expiredList;
          message2 = appendSection nearHeading (nearLine plat) message1 nearList;
          message3 = appendSection lowHeading (lowLine plat) message2 lowList
      in message3 @ messageFooter)"

subsection \<open>The environment: persistent store, gateway and clock\<close>

text \<open>
  Everything outside the process is reached through the operations of an environment on a
  world \<open>'w\<close>, which each interaction may change:
  \<^item> \<open>clock\<close> reads the time (\<^verbatim>\<open>new Date()\<close>);
  \<^item> \<open>sendMessage\<close> is the gateway's send operation of \<^verbatim>\<open>./lib/telegramBot\<close>, which
    returns \<^verbatim>\<open>{success, blocked, error}\<close> or throws;
  \<^item> \<open>firestore\<close> tells whether a request to the persistent store is served or rejects
    (the awaited promise throws); \<open>serverTimestamp\<close> is the time the store writes for
    \<^verbatim>\<open>FieldValue.serverTimestamp()\<close>.
  The contents of the store are explicit: a list of stores, each with its documents.
  Logging and the two rate-limiting delays have no effect on these and are left out.
\<close>

record send_result =
  success :: bool
  blocked :: bool
  error :: string

datatype fs_request =
    ListStores
  | GetSubscribers string
  | GetSettings string
  | GetInventory string
  | UpdateSubscriber string string
  | DeleteSubscriber string string

record 'w env =
  clock :: "'w \<Rightarrow> int \<times> 'w"
  sendMessage :: "'w \<Rightarrow> int \<Rightarrow> string \<Rightarrow> (js_error + send_result) \<times> 'w"
  firestore :: "'w \<Rightarrow> fs_request \<Rightarrow> bool \<times> 'w"
  serverTimestamp :: "'w \<Rightarrow> int"

record subscriber =
  telegramUserId :: int
  chatId :: int
  lastAlertSent :: "int option"

record settings =
  lowStockThreshold :: int
  expiryWarningDays :: int
  enableExpiryAlerts :: bool
  enableLowStockAlerts :: bool

text \<open>The stored settings document: each field may be absent.\<close>

record settings_doc =
  stored_lowStockThreshold :: "int option"
  stored_expiryWarningDays :: "int option"
  stored_enableExpiryAlerts :: "bool option"
  stored_enableLowStockAlerts :: "bool option"

record store =
  storeId :: string
  storeName :: "string option"
  subscribers :: "(string \<times> subscriber) list"
  settingsDoc :: "settings_doc option"
  inventory :: "item list"

definition firestoreError :: js_error where
  "firestoreError = JsError ''firestore request failed''"

subsection \<open>\<^verbatim>\<open>getStoreSettings\<close>\<close>

definition defaults :: settings where
  "defaults = \<lparr>lowStockThreshold = 5, expiryWarningDays = 7,
                enableExpiryAlerts = True, enableLowStockAlerts = True\<rparr>"

text \<open>\<^verbatim>\<open>{ ...defaults, ...settingsDoc.data() }\<close>\<close>

definition overlay :: "settings \<Rightarrow> settings_doc \<Rightarrow> settings" where
  "overlay d doc =
     \<lparr>lowStockThreshold =
        (case stored_lowStockThreshold doc of None \<Rightarrow> lowStockThreshold d | Some v \<Rightarrow> v),
      expiryWarningDays =
        (case stored_expiryWarningDays doc of None \<Rightarrow> expiryWarningDays d | Some v \<Rightarrow> v),
      enableExpiryAlerts =
        (case stored_enableExpiryAlerts doc of None \<Rightarrow> enableExpiryAlerts d | Some v \<Rightarrow> v),
      enableLowStockAlerts =
        (case stored_enableLowStockAlerts doc of None \<Rightarrow> enableLowStockAlerts d
         | Some v \<Rightarrow> v)\<rparr>"

definition getStoreSettings :: "'w env \<Rightarrow> 'w \<Rightarrow> store \<Rightarrow> settings \<times> 'w" where
  "getStoreSettings e w st =
     (case firestore e w (GetSettings (storeId st)) of
        (served, w1) \<Rightarrow>
          if served then
            (case settingsDoc st of
               Some doc \<Rightarrow> (overlay defaults doc, w1)
             | None \<Rightarrow> (defaults, w1))
          else (defaults, w1))"

subsection \<open>\<^verbatim>\<open>processStoreAlerts\<close>\<close>

text \<open>
  \<^verbatim>\<open>subscriberDoc.ref.update({lastAlertSent: serverTimestamp()})\<close>: rejects when the
  request fails or the document no longer exists.
\<close>

definition updateLastAlertSent ::
  "'w env \<Rightarrow> 'w \<Rightarrow> string \<Rightarrow> string \<Rightarrow> (string \<times> subscriber) list
     \<Rightarrow> (js_error + unit) \<times> 'w \<times> (string \<times> subscriber) list" where
  "updateLastAlertSent e w sid docId subs =
     (case firestore e w (UpdateSubscriber sid docId) of
        (served, w1) \<Rightarrow>
          if served \<and> docId \<in> set (map fst subs) then
            (Inr (), w1,
             map (\<lambda>(k, d). if k = docId
                             then (k, d\<lparr>lastAlertSent := Some (serverTimestamp e w1)\<rparr>)
                             else (k, d)) subs)
          else (Inl firestoreError, w1, subs))"

text \<open>\<^verbatim>\<open>subscriberDoc.ref.delete()\<close>: deleting a document that is absent succeeds.\<close>

definition deleteSubscriber ::
  "'w env \<Rightarrow> 'w \<Rightarrow> string \<Rightarrow> string \<Rightarrow> (string \<times> subscriber) list
     \<Rightarrow> (js_error + unit) \<times> 'w \<times> (string \<times> subscriber) list" where
  "deleteSubscriber e w sid docId subs =
     (case firestore e w (DeleteSubscriber sid docId) of
        (served, w1) \<Rightarrow>
          if served then (Inr (), w1, filter (\<lambda>(k, d). k \<noteq> docId) subs)
          else (Inl firestoreError, w1, subs))"

text \<open>
  The body of the loop over the subscribers (lines 119 to 146), on the world, the
  subscriber collection and \<^verbatim>\<open>alertsSent\<close>. Whatever is thrown inside is caught.
\<close>

definition deliver ::
  "'w env \<Rightarrow> string \<Rightarrow> string \<Rightarrow> 'w \<times> (string \<times> subscriber) list \<times> nat
     \<Rightarrow> string \<times> subscriber \<Rightarrow> 'w \<times> (string \<times> subscriber) list \<times> nat" where
  "deliver e sid message state subscriberDoc =
     (case state of (w, subs, alertsSent) \<Rightarrow>
      case subscriberDoc of (docId, sub) \<Rightarrow>
        (case sendMessage e w (chatId sub) message of
           (Inl thrown, w1) \<Rightarrow> (w1, subs, alertsSent)
         | (Inr result, w1) \<Rightarrow>
             if success result then
               (case updateLastAlertSent e w1 sid docId subs of
                  (Inl thrown, w2, subs2) \<Rightarrow> (w2, subs2, alertsSent)
                | (Inr u, w2, subs2) \<Rightarrow> (w2, subs2, alertsSent + 1))
             else if blocked result then
               (case deleteSubscriber e w1 sid docId subs of
                  (r, w2, subs2) \<Rightarrow> (w2, subs2, alertsSent))
             else (w1, subs, alertsSent)))"

definition notifySubscribers ::
  "'w env \<Rightarrow> string \<Rightarrow> string \<Rightarrow> 'w \<times> (string \<times> subscriber) list \<times> nat
     \<Rightarrow> (string \<times> subscriber) list \<Rightarrow> 'w \<times> (string \<times> subscriber) list \<times> nat" where
  "notifySubscribers e sid message state docs = foldl (deliver e sid message) state docs"

text \<open>
  Lines 66 to 106: the reads and the classification. \<open>Inr None\<close> is one of the two early
  \<^verbatim>\<open>return 0\<close> (no subscribers, no inventory); \<open>Inl\<close> is a read that throws.
\<close>

definition fetchAndAnalyze ::
  "'w env \<Rightarrow> platform \<Rightarrow> 'w \<Rightarrow> store \<Rightarrow> (js_error + analysis option) \<times> 'w" where
  "fetchAndAnalyze e plat w st =
     (case firestore e w (GetSubscribers (storeId st)) of
        (served, w1) \<Rightarrow>
          if \<not> served then (Inl firestoreError, w1)
          else if subscribers st = [] then (Inr None, w1)
          else
            (case getStoreSettings e w1 st of
               (cfg, w2) \<Rightarrow>
                 (case firestore e w2 (GetInventory (storeId st)) of
                    (served2, w3) \<Rightarrow>
                      if \<not> served2 then (Inl firestoreError, w3)
                      else if inventory st = [] then (Inr None, w3)
                      else
                        (case clock e w3 of
                           (now, w4) \<Rightarrow>
                             (Inr (Some (analyzeInventory plat now (inventory st)
                                          (expiryWarningDays cfg) (lowStockThreshold cfg))),
                              w4)))))"

text \<open>\<^verbatim>\<open>storeDoc.data().name || 'Your Store'\<close>\<close>

definition storeNameOrDefault :: "store \<Rightarrow> string" where
  "storeNameOrDefault st =
     (case storeName st of None \<Rightarrow> ''Your Store''
      | Some n \<Rightarrow> if n = [] then ''Your Store'' else n)"

text \<open>Lines 108 to 149: the skip, the message and the loop over the subscribers.\<close>

definition alertSubscribers ::
  "'w env \<Rightarrow> platform \<Rightarrow> 'w \<Rightarrow> store \<Rightarrow> analysis
     \<Rightarrow> nat \<times> 'w \<times> (string \<times> subscriber) list" where
  "alertSubscribers e plat w st a =
     (if length (expired a) = 0 \<and> length (nearExpiry a) = 0 \<and> length (lowStock a) = 0
      then (0, w, subscribers st)
      else
        (case clock e w of
           (now, w1) \<Rightarrow>
             (let message = formatAlertMessage plat now (storeNameOrDefault st)
                              (expired a) (nearExpiry a) (lowStock a)
              in case notifySubscribers e (storeId st) message (w1, subscribers st, 0)
                        (subscribers st) of
                   (w2, subs2, alertsSent) \<Rightarrow> (alertsSent, w2, subs2))))"

definition processStoreAlerts ::
  "'w env \<Rightarrow> platform \<Rightarrow> 'w \<Rightarrow> store
     \<Rightarrow> (js_error + nat) \<times> 'w \<times> (string \<times> subscriber) list" where
  "processStoreAlerts e plat w st =
     (case fetchAndAnalyze e plat w st of
        (Inl thrown, w1) \<Rightarrow> (Inl thrown, w1, subscribers st)
      | (Inr None, w1) \<Rightarrow> (Inr 0, w1, subscribers st)
      | (Inr (Some a), w1) \<Rightarrow>
          (case alertSubscribers e plat w1 st a of
             (alertsSent, w2, subs2) \<Rightarrow> (Inr alertsSent, w2, subs2)))"

subsection \<open>\<^verbatim>\<open>dailyTelegramAlerts\<close>\<close>

record run_result =
  run_success :: bool
  totalAlertsSent :: nat
  successCount :: nat
  failureCount :: nat

text \<open>
  The body of the loop over the stores (lines 28 to 44), on the world, the stores already
  visited and the three counters.
\<close>

definition processStore ::
  "'w env \<Rightarrow> platform \<Rightarrow> 'w \<times> store list \<times> run_result \<Rightarrow> store
     \<Rightarrow> 'w \<times> store list \<times> run_result" where
  "processStore e plat state storeDoc =
     (case state of (w, visited, counters) \<Rightarrow>
        (case processStoreAlerts e plat w storeDoc of
           (Inr alerts, w1, subs1) \<Rightarrow>
             (w1, visited @ [storeDoc\<lparr>subscribers := subs1\<rparr>],
              if alerts > 0
              then counters\<lparr>successCount := successCount counters + 1,
                            totalAlertsSent := totalAlertsSent counters + alerts\<rparr>
              else counters)
         | (Inl thrown, w1, subs1) \<Rightarrow>
             (w1, visited @ [storeDoc\<lparr>subscribers := subs1\<rparr>],
              counters\<lparr>failureCount := failureCount counters + 1\<rparr>)))"

definition dailyTelegramAlerts ::
  "'w env \<Rightarrow> platform \<Rightarrow> 'w \<Rightarrow> store list \<Rightarrow> (js_error + run_result) \<times> 'w \<times> store list" where
  "dailyTelegramAlerts e plat w stores =
     (case firestore e w ListStores of
        (served, w1) \<Rightarrow>
          if \<not> served then (Inl firestoreError, w1, stores)
          else
            (case foldl (processStore e plat)
                    (w1, [], \<lparr>run_success = True, totalAlertsSent = 0, successCount = 0,
                              failureCount = 0\<rparr>) stores of
               (w2, visited, counters) \<Rightarrow> (Inr counters, w2, visited)))"

text \<open>
  What \<^verbatim>\<open>processStoreAlerts\<close> returns or throws for each store of a run, in the order of
  the run: the world each store is processed in is the one its predecessors left.
\<close>

fun storeOutcomes :: "'w env \<Rightarrow> platform \<Rightarrow> 'w \<Rightarrow> store list \<Rightarrow> (js_error + nat) list" where
  "storeOutcomes e plat w [] = []"
| "storeOutcomes e plat w (st # rest) =
     (case processStoreAlerts e plat w st of
        (r, w1, subs1) \<Rightarrow> r # storeOutcomes e plat w1 rest)"

definition alertsOf :: "js_error + nat \<Rightarrow> nat" where
  "alertsOf r = (case r of Inl thrown \<Rightarrow> 0 | Inr n \<Rightarrow> n)"

subsection \<open>The section of a list, as the specification words it\<close>

text \<open>
  Nothing for an empty list; otherwise the heading with the count, the lines of the first
  ten entries, one line naming the number of the remaining entries when there are more
  than ten, and an empty line.
\<close>

definition renderedSection :: "(nat \<Rightarrow> string) \<Rightarrow> ('a \<Rightarrow> string) \<Rightarrow> 'a list \<Rightarrow> string" where
  "renderedSection heading line list =
     (if list = [] then []
      else heading (length list) @ concat (map line (take 10 list))
             @ (if 10 < length list then moreItemsLine (length list - 10) else [])
             @ newline)"

text \<open>
  The lines of a text, as \<^verbatim>\<open>text.split('\n')\<close> gives them, and the number that a string
  of decimal digits states.
\<close>

primrec splitLines :: "string \<Rightarrow> string list" where
  "splitLines [] = [[]]"
| "splitLines (c # cs) =
     (if c = CHR 0x0A then [] # splitLines cs
      else (case splitLines cs of [] \<Rightarrow> [[c]] | l # ls \<Rightarrow> (c # l) # ls))"

definition decimalValue :: "string \<Rightarrow> nat" where
  "decimalValue s = foldl (\<lambda>a c. 10 * a + (of_char c - 48)) 0 s"

text \<open>Whether the processing of a store threw.\<close>

definition isFailure :: "js_error + nat \<Rightarrow> bool" where
  "isFailure r = (case r of Inl thrown \<Rightarrow> True | Inr n \<Rightarrow> False)"

subsection \<open>A concrete platform, environment and stores\<close>

text \<open>
  An excerpt of a runtime in the UTC time zone: three date strings with their time values,
  the start of the UTC day, and the renderings of the days in use. The clock of the world
  starts at 09:00 Indian time on 1 November 2026.
\<close>

definition demoPlatform :: platform where
  "demoPlatform =
     \<lparr>newDate = (\<lambda>s. if s = ''2026-10-29'' then Inr (Some 1793232000000)
                     else if s = ''2026-11-02'' then Inr (Some 1793577600000)
                     else if s = ''2026-11-20'' then Inr (Some 1795132800000)
                     else Inr None),
      setHours0 = (\<lambda>t. Some (t - t mod 86400000)),
      formatDMY = (\<lambda>t. let day = (t + 19800000) div 86400000
                        in if day = 20758 then ''1 Nov 2026''
                           else if day = 20759 then ''2 Nov 2026'' else ''another day''),
      formatDM = (\<lambda>t. let day = (t + 19800000) div 86400000
                       in if day = 20755 then ''29 Oct''
                          else if day = 20759 then ''2 Nov'' else ''another day''),
      exponentString = (\<lambda>n. if n = 10 ^ 21 then ''1e+21'' else ''another number'')\<rparr>"

definition demoNow :: int where
  "demoNow = 1793503800000"

text \<open>
  A world that records every message handed to the gateway. The gateway accepts chat 101,
  reports chat 102 as blocked, fails for chat 103 and throws for any other chat.
\<close>

record demo_world =
  world_time :: int
  world_sent :: "(int \<times> string) list"

definition demoReply :: "int \<Rightarrow> js_error + send_result" where
  "demoReply chat =
     (if chat = 101 then Inr \<lparr>success = True, blocked = False, error = []\<rparr>
      else if chat = 102
      then Inr \<lparr>success = False, blocked = True,
                 error = ''Forbidden: bot was blocked by the user''\<rparr>
      else if chat = 103
      then Inr \<lparr>success = False, blocked = False, error = ''Bad Request: chat not found''\<rparr>
      else Inl (JsError ''ETIMEDOUT''))"

definition demoEnv :: "demo_world env" where
  "demoEnv =
     \<lparr>clock = (\<lambda>w. (world_time w, w\<lparr>world_time := world_time w + 1\<rparr>)),
      sendMessage = (\<lambda>w chat text.
        (demoReply chat,
         w\<lparr>world_time := world_time w + 100, world_sent := world_sent w @ [(chat, text)]\<rparr>)),
      firestore = (\<lambda>w request. (True, w\<lparr>world_time := world_time w + 10\<rparr>)),
      serverTimestamp = world_time\<rparr>"

text \<open>The same environment, except that reading the inventory of \<open>shop2\<close> rejects.\<close>

definition faultyEnv :: "demo_world env" where
  "faultyEnv =
     demoEnv\<lparr>firestore := (\<lambda>w request.
       (request \<noteq> GetInventory ''shop2'', w\<lparr>world_time := world_time w + 10\<rparr>))\<rparr>"

text \<open>The same environment, except that the store rejects every write to a subscriber.\<close>

definition rejectingEnv :: "demo_world env" where
  "rejectingEnv =
     demoEnv\<lparr>firestore := (\<lambda>w request.
       (case request of
          UpdateSubscriber sid docId \<Rightarrow> False
        | DeleteSubscriber sid docId \<Rightarrow> False
        | _ \<Rightarrow> True,
        w\<lparr>world_time := world_time w + 10\<rparr>))\<rparr>"

definition demoWorld :: demo_world where
  "demoWorld = \<lparr>world_time = demoNow, world_sent = []\<rparr>"

definition demoSubscribers :: "(string \<times> subscriber) list" where
  "demoSubscribers =
     [(''9001'', \<lparr>telegramUserId = 9001, chatId = 101, lastAlertSent = None\<rparr>),
      (''9002'', \<lparr>telegramUserId = 9002, chatId = 102, lastAlertSent = Some 1793400000000\<rparr>),
      (''9003'', \<lparr>telegramUserId = 9003, chatId = 103, lastAlertSent = None\<rparr>),
      (''9004'', \<lparr>telegramUserId = 9004, chatId = 104, lastAlertSent = None\<rparr>)]"

definition milk :: item where
  "milk = \<lparr>itemId = ''i1'', name = Some ''Milk'', quantity = Some 2,
           expiryDate = Some ''2026-11-02''\<rparr>"

definition curd :: item where
  "curd = \<lparr>itemId = ''i2'', name = Some ''Curd'', quantity = Some 40,
           expiryDate = Some ''2026-10-29''\<rparr>"

definition rice :: item where
  "rice = \<lparr>itemId = ''i3'', name = Some ''Rice'', quantity = Some 50, expiryDate = None\<rparr>"

definition soap :: item where
  "soap = \<lparr>itemId = ''i4'', name = None, quantity = None, expiryDate = Some ''next week''\<rparr>"

definition shop1 :: store where
  "shop1 = \<lparr>storeId = ''shop1'', storeName = Some ''Asha Kirana'',
            subscribers = demoSubscribers,
            settingsDoc = Some \<lparr>stored_lowStockThreshold = Some 5,
              stored_expiryWarningDays = None, stored_enableExpiryAlerts = None,
              stored_enableLowStockAlerts = None\<rparr>,
            inventory = [milk, curd, rice, soap]\<rparr>"

definition shop2 :: store where
  "shop2 = shop1\<lparr>storeId := ''shop2''\<rparr>"

definition shop3 :: store where
  "shop3 = shop1\<lparr>storeId := ''shop3'', inventory := [rice]\<rparr>"

definition curdEntry :: expired_entry where
  "curdEntry = \<lparr>expired_name = ''Curd'', daysExpired = 3, expired_expiryDate = 1793232000000\<rparr>"

definition milkEntry :: near_entry where
  "milkEntry = \<lparr>near_name = ''Milk'', daysUntilExpiry = 1, near_expiryDate = 1793577600000\<rparr>"

definition elevenLow :: "low_entry list" where
  "elevenLow = replicate 2 \<lparr>low_name = ''Salt'', low_quantity = 0\<rparr>
                 @ replicate 9 \<lparr>low_name = ''Soap'', low_quantity = 3\<rparr>"

section \<open>Properties of the classifier\<close>

subsection \<open>The loop as a map over the snapshot\<close>

lemma emptyAnalysis_sel [simp]:
  "expired emptyAnalysis = []" "nearExpiry emptyAnalysis = []" "lowStock emptyAnalysis = []"
  by (simp_all add: emptyAnalysis_def)

lemma classifyItem_expired:
  "expired (classifyItem plat today ewd thr acc it) =
     expired acc @ expired (classifyItem plat today ewd thr emptyAnalysis it)"
  by (simp add: classifyItem_def emptyAnalysis_def Let_def split: option.splits prod.splits)

lemma classifyItem_nearExpiry:
  "nearExpiry (classifyItem plat today ewd thr acc it) =
     nearExpiry acc @ nearExpiry (classifyItem plat today ewd thr emptyAnalysis it)"
  by (simp add: classifyItem_def emptyAnalysis_def Let_def split: option.splits prod.splits)

lemma classifyItem_lowStock:
  "lowStock (classifyItem plat today ewd thr acc it) =
     lowStock acc @ lowStock (classifyItem plat today ewd thr emptyAnalysis it)"
  by (simp add: classifyItem_def emptyAnalysis_def Let_def split: option.splits prod.splits)

lemma foldl_classify_expired:
  "expired (foldl (classifyItem plat today ewd thr) acc items) =
     expired acc @
     concat (map (\<lambda>it. expired (classifyItem plat today ewd thr emptyAnalysis it)) items)"
proof (induction items arbitrary: acc)
  case Nil
  show ?case by simp
next
  case (Cons it items)
  show ?case
    by (simp add: Cons.IH classifyItem_expired [of plat today ewd thr acc it])
qed

lemma foldl_classify_nearExpiry:
  "nearExpiry (foldl (classifyItem plat today ewd thr) acc items) =
     nearExpiry acc @
     concat (map (\<lambda>it. nearExpiry (classifyItem plat today ewd thr emptyAnalysis it)) items)"
proof (induction items arbitrary: acc)
  case Nil
  show ?case by simp
next
  case (Cons it items)
  show ?case
    by (simp add: Cons.IH classifyItem_nearExpiry [of plat today ewd thr acc it])
qed

lemma foldl_classify_lowStock:
  "lowStock (foldl (classifyItem plat today ewd thr) acc items) =
     lowStock acc @
     concat (map (\<lambda>it. lowStock (classifyItem plat today ewd thr emptyAnalysis it)) items)"
proof (induction items arbitrary: acc)
  case Nil
  show ?case by simp
next
  case (Cons it items)
  show ?case
    by (simp add: Cons.IH classifyItem_lowStock [of plat today ewd thr acc it])
qed

lemma analyze_expired:
  "expired (analyzeInventory plat now items ewd thr) =
     arraySort (\<lambda>a b. daysExpired b - daysExpired a)
       (concat (map (\<lambda>it. expired
          (classifyItem plat (setHours0 plat now) ewd thr emptyAnalysis it)) items))"
  by (simp add: analyzeInventory_def Let_def foldl_classify_expired)

lemma analyze_nearExpiry:
  "nearExpiry (analyzeInventory plat now items ewd thr) =
     arraySort (\<lambda>a b. daysUntilExpiry a - daysUntilExpiry b)
       (concat (map (\<lambda>it. nearExpiry
          (classifyItem plat (setHours0 plat now) ewd thr emptyAnalysis it)) items))"
  by (simp add: analyzeInventory_def Let_def foldl_classify_nearExpiry)

lemma analyze_lowStock:
  "lowStock (analyzeInventory plat now items ewd thr) =
     arraySort (\<lambda>a b. low_quantity a - low_quantity b)
       (concat (map (\<lambda>it. lowStock
          (classifyItem plat (setHours0 plat now) ewd thr emptyAnalysis it)) items))"
  by (simp add: analyzeInventory_def Let_def foldl_classify_lowStock)

subsection \<open>The sort\<close>

lemma sortInsert_insort_key:
  "sortInsert (\<lambda>a b. k a - k b) x ys = insort_key k x ys"
  by (induction ys) auto

lemma arraySort_sort_key: "arraySort (\<lambda>a b. (k a :: int) - k b) xs = sort_key k xs"
  by (induction xs) (auto simp: arraySort_def sortInsert_insort_key)

lemma arraySort_desc: "arraySort (\<lambda>a b. (k b :: int) - k a) xs = sort_key (\<lambda>e. - k e) xs"
  using arraySort_sort_key [of "\<lambda>e. - k e" xs] by simp

lemma mset_arraySort_asc: "mset (arraySort (\<lambda>a b. (k a :: int) - k b) xs) = mset xs"
  by (simp add: arraySort_sort_key)



subsection \<open>Low stock\<close>

lemma quantityOrZero_default:
  "quantityOrZero it = (case quantity it of None \<Rightarrow> 0 | Some q \<Rightarrow> q)"
  by (simp add: quantityOrZero_def split: option.splits)

lemma lowStock_pushed:
  "lowStock (classifyItem plat today ewd thr emptyAnalysis it) =
     (if quantityOrZero it \<le> thr
      then [\<lparr>low_name = nameOrDefault it, low_quantity = quantityOrZero it\<rparr>] else [])"
  by (simp add: classifyItem_def emptyAnalysis_def Let_def split: option.splits prod.splits)

lemma concat_map_if:
  "concat (map (\<lambda>x. if P x then [f x] else []) xs) = map f (filter P xs)"
  by (induction xs) auto

lemma lowStock_unsorted:
  "concat (map (\<lambda>it. lowStock (classifyItem plat today ewd thr emptyAnalysis it)) items) =
     map (\<lambda>it. \<lparr>low_name = nameOrDefault it, low_quantity = quantityOrZero it\<rparr>)
       (filter (\<lambda>it. quantityOrZero it \<le> thr) items)"
  by (simp add: lowStock_pushed concat_map_if)

text \<open>
  Claim C2. For every snapshot and every threshold, the low-stock list holds, up to its
  order, one entry for each item of the snapshot whose quantity (0 when the field is absent)
  is at most the threshold, with the item's display name and that quantity, and nothing
  else; and the list does not depend on the expiry dates of the items, on the clock, on
  the date functions of the platform or on the expiry warning window.
\<close>

theorem lowStock_exactly_the_scarce_items:
  "mset (lowStock (analyzeInventory plat now items warnDays threshold)) =
     mset (map (\<lambda>it. \<lparr>low_name = nameOrDefault it,
                       low_quantity = (case quantity it of None \<Rightarrow> 0 | Some q \<Rightarrow> q)\<rparr>)
            (filter (\<lambda>it. (case quantity it of None \<Rightarrow> 0 | Some q \<Rightarrow> q) \<le> threshold)
               items))
   \<and> lowStock (analyzeInventory plat' now' (map (\<lambda>it. it\<lparr>expiryDate := dates it\<rparr>) items)
        warnDays' threshold) =
     lowStock (analyzeInventory plat now items warnDays threshold)"
proof
  show "mset (lowStock (analyzeInventory plat now items warnDays threshold)) =
     mset (map (\<lambda>it. \<lparr>low_name = nameOrDefault it,
                       low_quantity = (case quantity it of None \<Rightarrow> 0 | Some q \<Rightarrow> q)\<rparr>)
            (filter (\<lambda>it. (case quantity it of None \<Rightarrow> 0 | Some q \<Rightarrow> q) \<le> threshold)
               items))"
    by (simp only: analyze_lowStock mset_arraySort_asc lowStock_unsorted quantityOrZero_default)
next
  have "map (\<lambda>it. \<lparr>low_name = nameOrDefault it, low_quantity = quantityOrZero it\<rparr>)
          (filter (\<lambda>it. quantityOrZero it \<le> threshold)
             (map (\<lambda>it. it\<lparr>expiryDate := dates it\<rparr>) items)) =
        map (\<lambda>it. \<lparr>low_name = nameOrDefault it, low_quantity = quantityOrZero it\<rparr>)
          (filter (\<lambda>it. quantityOrZero it \<le> threshold) items)"
    by (induction items) (auto simp: nameOrDefault_def quantityOrZero_def)
  then show "lowStock (analyzeInventory plat' now' (map (\<lambda>it. it\<lparr>expiryDate := dates it\<rparr>) items)
        warnDays' threshold) =
     lowStock (analyzeInventory plat now items warnDays threshold)"
    by (simp only: analyze_lowStock lowStock_unsorted)
qed

text \<open>
  Of milk, curd, rice and an unnamed item without quantity, the milk and the unnamed item
  are at most five in stock.
\<close>

theorem lowStock_witness:
  "mset (lowStock (analyzeInventory demoPlatform demoNow [milk, curd, rice, soap] 7 5)) =
     {#\<lparr>low_name = ''Milk'', low_quantity = 2\<rparr>,
       \<lparr>low_name = ''Unnamed Item'', low_quantity = 0\<rparr>#}"
  using lowStock_exactly_the_scarce_items
    [of demoPlatform demoNow "[milk, curd, rice, soap]" 7 5 demoPlatform demoNow "\<lambda>it. None" 7]
  by (simp add: milk_def curd_def rice_def soap_def nameOrDefault_def)

subsection \<open>Expiry categories\<close>

lemma expired_pushed:
  "expired (classifyItem plat today ewd thr emptyAnalysis it) =
     (case daysUntil plat today it of
        None \<Rightarrow> []
      | Some (d, e) \<Rightarrow>
          if d \<le> 0
          then [\<lparr>expired_name = nameOrDefault it, daysExpired = \<bar>d\<bar>, expired_expiryDate = e\<rparr>]
          else [])"
  by (simp add: classifyItem_def emptyAnalysis_def Let_def split: option.splits prod.splits)

lemma nearExpiry_pushed:
  "nearExpiry (classifyItem plat today ewd thr emptyAnalysis it) =
     (case daysUntil plat today it of
        None \<Rightarrow> []
      | Some (d, e) \<Rightarrow>
          if 0 < d \<and> d \<le> ewd
          then [\<lparr>near_name = nameOrDefault it, daysUntilExpiry = d, near_expiryDate = e\<rparr>]
          else [])"
  by (simp add: classifyItem_def emptyAnalysis_def Let_def split: option.splits prod.splits)


lemma daysUntil_unparseable:
  assumes "expiryDate it = Some raw"
    and "newDate plat raw = Inr None \<or> newDate plat raw = Inl err"
  shows "daysUntil plat today it = None"
  using assms by (auto simp: daysUntil_def)



text \<open>
  Claim C10. The classifier is a total function: it has no failing branch, since whatever
  the date handling throws is caught inside the loop body. An item whose expiry date does
  not parse (an invalid date, or a constructor that throws) adds nothing to \<open>expired\<close>
  and nothing to \<open>nearExpiry\<close>, whatever the rest of the snapshot is, and it is still
  classified for low stock from its quantity.
\<close>

theorem malformed_expiry_is_skipped:
  assumes "expiryDate it = Some raw"
    and "newDate plat raw = Inr None \<or> newDate plat raw = Inl err"
  shows "let A = analyzeInventory plat now (pre @ it # post) warnDays threshold;
             B = analyzeInventory plat now (pre @ post) warnDays threshold;
             q = (case quantity it of None \<Rightarrow> 0 | Some n \<Rightarrow> n)
         in expired A = expired B \<and> nearExpiry A = nearExpiry B
          \<and> mset (lowStock A) =
              (if q \<le> threshold
               then add_mset \<lparr>low_name = nameOrDefault it, low_quantity = q\<rparr> (mset (lowStock B))
               else mset (lowStock B))"
proof -
  have du: "daysUntil plat (setHours0 plat now) it = None"
    using assms by (rule daysUntil_unparseable)
  show ?thesis
    unfolding Let_def analyze_expired analyze_nearExpiry analyze_lowStock
    by (simp add: expired_pushed nearExpiry_pushed lowStock_pushed du mset_arraySort_asc
        quantityOrZero_default)
qed

text \<open>
  An item without name and quantity whose expiry date is the text \<open>next week\<close>: no
  expiry category, and low stock with quantity 0.
\<close>

theorem malformed_expiry_witness:
  "expired (analyzeInventory demoPlatform demoNow [soap] 7 5) = []
   \<and> nearExpiry (analyzeInventory demoPlatform demoNow [soap] 7 5) = []
   \<and> lowStock (analyzeInventory demoPlatform demoNow [soap] 7 5) =
       [\<lparr>low_name = ''Unnamed Item'', low_quantity = 0\<rparr>]"
proof -
  have a: "expiryDate soap = Some ''next week''"
    by (simp add: soap_def)
  have b: "newDate demoPlatform ''next week'' = Inr None
           \<or> newDate demoPlatform ''next week'' = Inl (JsError [])"
    by (simp add: demoPlatform_def)
  have empty: "analyzeInventory demoPlatform demoNow [] 7 5 = emptyAnalysis"
    by (simp add: analyzeInventory_def arraySort_def emptyAnalysis_def)
  show ?thesis
    using malformed_expiry_is_skipped [OF a b, of demoNow "[]" "[]" 7 5]
    by (simp add: Let_def empty nameOrDefault_def soap_def)
qed

subsection \<open>Order of the lists\<close>

lemma sorted_arraySort_asc:
  "sorted_wrt (\<lambda>a b. (k a :: int) \<le> k b) (arraySort (\<lambda>a b. k a - k b) xs)"
  using sorted_sort_key [of k xs] by (simp add: arraySort_sort_key sorted_map)

lemma sorted_arraySort_desc:
  "sorted_wrt (\<lambda>a b. (k a :: int) \<ge> k b) (arraySort (\<lambda>a b. k b - k a) xs)"
  using sorted_sort_key [of "\<lambda>e. - k e" xs] by (simp add: arraySort_desc sorted_map)

lemma stable_arraySort_asc:
  "filter (\<lambda>x. (k x :: int) = v) (arraySort (\<lambda>a b. k a - k b) xs) = filter (\<lambda>x. k x = v) xs"
  by (simp add: arraySort_sort_key sort_key_stable)

lemma stable_arraySort_desc:
  "filter (\<lambda>x. (k x :: int) = v) (arraySort (\<lambda>a b. k b - k a) xs) = filter (\<lambda>x. k x = v) xs"
  using sort_key_stable [of "\<lambda>e. - k e" "- v" xs] by (simp add: arraySort_desc)

text \<open>
  Claim C7. For every snapshot, \<open>expired\<close> is sorted descending by \<open>daysExpired\<close>,
  \<open>nearExpiry\<close> ascending by \<open>daysUntilExpiry\<close> and \<open>lowStock\<close> ascending by quantity;
  and the entries of a list that have the same key stand in the order in which the loop
  pushed them, which is the order of their items in the snapshot.
\<close>

theorem classifier_lists_sorted_stably:
  "let A = analyzeInventory plat now items warnDays threshold;
       pushed = (\<lambda>it. classifyItem plat (setHours0 plat now) warnDays
                  threshold emptyAnalysis it)
   in sorted_wrt (\<lambda>a b. daysExpired a \<ge> daysExpired b) (expired A)
    \<and> sorted_wrt (\<lambda>a b. daysUntilExpiry a \<le> daysUntilExpiry b) (nearExpiry A)
    \<and> sorted_wrt (\<lambda>a b. low_quantity a \<le> low_quantity b) (lowStock A)
    \<and> (\<forall>k. filter (\<lambda>x. daysExpired x = k) (expired A) =
             filter (\<lambda>x. daysExpired x = k) (concat (map (\<lambda>it. expired (pushed it)) items)))
    \<and> (\<forall>k. filter (\<lambda>x. daysUntilExpiry x = k) (nearExpiry A) =
             filter (\<lambda>x. daysUntilExpiry x = k) (concat (map (\<lambda>it. nearExpiry (pushed it)) items)))
    \<and> (\<forall>k. filter (\<lambda>x. low_quantity x = k) (lowStock A) =
             filter (\<lambda>x. low_quantity x = k) (concat (map (\<lambda>it. lowStock (pushed it)) items)))"
  unfolding Let_def analyze_expired analyze_nearExpiry analyze_lowStock
  by (simp only: sorted_arraySort_asc sorted_arraySort_desc stable_arraySort_asc
      stable_arraySort_desc simp_thms)

text \<open>
  Two items with quantity 2 and two with quantity 0, interleaved: each pair keeps its order.
\<close>

theorem sorted_stably_witness:
  "filter (\<lambda>x. low_quantity x = 2)
     (lowStock (analyzeInventory demoPlatform demoNow
        [milk, soap, milk\<lparr>name := Some ''Ghee''\<rparr>, soap\<lparr>name := Some ''Soap''\<rparr>] 7 5)) =
     [\<lparr>low_name = ''Milk'', low_quantity = 2\<rparr>, \<lparr>low_name = ''Ghee'', low_quantity = 2\<rparr>]
   \<and> filter (\<lambda>x. low_quantity x = 0)
     (lowStock (analyzeInventory demoPlatform demoNow
        [milk, soap, milk\<lparr>name := Some ''Ghee''\<rparr>, soap\<lparr>name := Some ''Soap''\<rparr>] 7 5)) =
     [\<lparr>low_name = ''Unnamed Item'', low_quantity = 0\<rparr>, \<lparr>low_name = ''Soap'', low_quantity = 0\<rparr>]
   \<and> sorted_wrt (\<lambda>a b. low_quantity a \<le> low_quantity b)
     (lowStock (analyzeInventory demoPlatform demoNow
        [milk, soap, milk\<lparr>name := Some ''Ghee''\<rparr>, soap\<lparr>name := Some ''Soap''\<rparr>] 7 5))"
  using classifier_lists_sorted_stably
    [of demoPlatform demoNow
      "[milk, soap, milk\<lparr>name := Some ''Ghee''\<rparr>, soap\<lparr>name := Some ''Soap''\<rparr>]" 7 5]
  by (simp add: Let_def lowStock_pushed milk_def soap_def nameOrDefault_def quantityOrZero_def)

section \<open>Properties of the composer\<close>

lemma foldl_append_lines:
  "foldl (\<lambda>m item. m @ line item) message list = message @ concat (map line list)"
  by (induction list arbitrary: message) auto

lemma appendSection_rendered:
  "appendSection heading line message list = message @ renderedSection heading line list"
  by (simp add: appendSection_def renderedSection_def Let_def foldl_append_lines)

lemma splitLines_line:
  "CHR 0x0A \<notin> set a \<Longrightarrow> splitLines (a @ CHR 0x0A # b) = a # splitLines b"
  by (induction a) auto

lemma splitLines_last: "CHR 0x0A \<notin> set a \<Longrightarrow> splitLines a = [a]"
  by (induction a) auto

lemma splitLines_lines:
  "\<forall>x\<in>set xs. CHR 0x0A \<notin> set (text x) \<Longrightarrow>
   splitLines (concat (map (\<lambda>x. text x @ newline) xs) @ rest) = map text xs @ splitLines rest"
  by (induction xs) (auto simp: newline_def splitLines_line)

lemma digit_nth:
  "m < 10 \<Longrightarrow> ''0123456789'' ! m \<noteq> CHR 0x0A \<and> of_char (''0123456789'' ! m) = (48 + m :: nat)"
proof -
  assume "m < 10"
  then have "m = 0 \<or> m = 1 \<or> m = 2 \<or> m = 3 \<or> m = 4 \<or> m = 5 \<or> m = 6 \<or> m = 7 \<or> m = 8 \<or> m = 9"
    by arith
  then show ?thesis
    by (elim disjE) simp_all
qed

lemma natToString_no_newline: "CHR 0x0A \<notin> set (natToString n)"
proof (induction n rule: natToString.induct)
  case (1 n)
  show ?case
  proof (cases "n < 10")
    case True
    then show ?thesis
      using digit_nth [of n] by (auto simp: natToString.simps [of n])
  next
    case False
    then show ?thesis
      using "1" digit_nth [of "n mod 10"] by (auto simp: natToString.simps [of n])
  qed
qed

lemma decimalValue_natToString: "decimalValue (natToString n) = n"
proof (induction n rule: natToString.induct)
  case (1 n)
  show ?case
  proof (cases "n < 10")
    case True
    then show ?thesis
      using digit_nth [of n] by (simp add: natToString.simps [of n] decimalValue_def)
  next
    case False
    then have "decimalValue (natToString (n div 10)) = n div 10"
      using "1" by simp
    then show ?thesis
      using False digit_nth [of "n mod 10"]
      by (simp add: natToString.simps [of n] decimalValue_def)
  qed
qed

lemma splitLines_section:
  assumes "\<And>n. CHR 0x0A \<notin> set (title n)"
    and "\<forall>x\<in>set xs. CHR 0x0A \<notin> set (text x)"
  shows "splitLines (renderedSection (\<lambda>n. title n @ newline) (\<lambda>x. text x @ newline) xs @ rest) =
     (if xs = [] then []
      else [title (length xs)] @ map text (take 10 xs)
           @ (if 10 < length xs
              then [''_...and '' @ natToString (length xs - 10) @ '' more items_''] else [])
           @ [[]])
     @ splitLines rest"
proof (cases "xs = []")
  case True
  then show ?thesis by (simp add: renderedSection_def)
next
  case False
  have shown: "\<forall>x\<in>set (take 10 xs). CHR 0x0A \<notin> set (text x)"
    using assms(2) by (auto dest: in_set_takeD)
  have more: "CHR 0x0A \<notin> set (''_...and '' @ natToString k @ '' more items_'')" for k
    by (simp add: natToString_no_newline)
  have tail: "splitLines ((if 10 < length xs then moreItemsLine (length xs - 10) else [])
        @ newline @ rest) =
      (if 10 < length xs
       then [''_...and '' @ natToString (length xs - 10) @ '' more items_''] else [])
      @ [[]] @ splitLines rest"
    using splitLines_line [OF more, of "length xs - 10" "CHR 0x0A # rest"]
      splitLines_line [of "[]" rest]
    by (simp add: moreItemsLine_def newline_def)
  have "splitLines (title (length xs) @ newline
        @ concat (map (\<lambda>x. text x @ newline) (take 10 xs))
        @ (if 10 < length xs then moreItemsLine (length xs - 10) else []) @ newline @ rest) =
      title (length xs) # map text (take 10 xs)
        @ (if 10 < length xs
           then [''_...and '' @ natToString (length xs - 10) @ '' more items_''] else [])
        @ [[]] @ splitLines rest"
    using splitLines_line [OF assms(1), of "length xs"] splitLines_lines [OF shown] tail
    by (simp add: newline_def)
  then show ?thesis
    using False by (simp add: renderedSection_def)
qed

lemma intToString_no_newline:
  "\<forall>n. CHR 0x0A \<notin> set (exponentString plat n) \<Longrightarrow> CHR 0x0A \<notin> set (intToString plat i)"
  by (simp add: intToString_def natToString_no_newline)

lemma marks_no_newline:
  "CHR 0x0A \<notin> set sirenMark" "CHR 0x0A \<notin> set crossMark" "CHR 0x0A \<notin> set redMark"
  "CHR 0x0A \<notin> set calendarMark" "CHR 0x0A \<notin> set orangeMark" "CHR 0x0A \<notin> set yellowMark"
  "CHR 0x0A \<notin> set packageMark" "CHR 0x0A \<notin> set warningMark" "CHR 0x0A \<notin> set pointMark"
  by (simp_all add: sirenMark_def crossMark_def redMark_def calendarMark_def orangeMark_def
      yellowMark_def packageMark_def warningMark_def pointMark_def)

lemma section_as_lines:
  "renderedSection (\<lambda>n. title n @ newline) (\<lambda>x. text x @ newline) xs =
     concat (map (\<lambda>l. l @ [CHR 0x0A])
       (if xs = [] then []
        else [title (length xs)] @ map text (take 10 xs)
             @ (if 10 < length xs
                then [''_...and '' @ natToString (length xs - 10) @ '' more items_''] else [])
             @ [[]]))"
  by (simp add: renderedSection_def moreItemsLine_def newline_def comp_def)

text \<open>
  Claim C6. The digest is the text of the following lines, each ended by a line break, and
  then the footer: the two header lines and an empty line; then, for each non-empty list in
  the order expired, near expiry, low stock, the heading with the length of the list, one
  line for each of the first ten entries of the list, the line \<open>_...and N more items_\<close>
  with \<open>N\<close> the length of the list minus ten when, and only when, the list has more than
  ten entries, and an empty line. When the store name, the names of the entries and the
  texts that the platform renders hold no line break, these are the lines of the digest as
  a text. So a section never has more than ten entry lines, has exactly ten of them and
  then exactly one line with the remaining count when its list has more than ten entries,
  and no such line otherwise. The counts are written in decimal: the digits written for
  \<open>n\<close> state \<open>n\<close>.
\<close>

theorem sections_render_at_most_ten_entries:
  "let digestLines =
     [sirenMark @ '' *Daily Inventory Alert*'', storeNm @ '' - '' @ formatDMY plat now, []]
     @ (if expiredList = [] then []
        else [crossMark @ '' *Expired Items ('' @ natToString (length expiredList) @ ''):*'']
             @ map (\<lambda>x. redMark @ '' '' @ expired_name x @ '' - ''
                      @ (if daysExpired x = 0 then ''Expired today''
                         else ''Expired '' @ intToString plat (daysExpired x) @ '' day''
                                @ (if 1 < daysExpired x then ''s'' else []) @ '' ago''))
                 (take 10 expiredList)
             @ (if 10 < length expiredList
                then [''_...and '' @ natToString (length expiredList - 10) @ '' more items_'']
                else [])
             @ [[]])
     @ (if nearList = [] then []
        else [calendarMark @ '' *Expiring Soon ('' @ natToString (length nearList) @ ''):*'']
             @ map (\<lambda>x. (if daysUntilExpiry x = 1 then redMark
                          else if daysUntilExpiry x \<le> 3 then orangeMark else yellowMark)
                      @ '' '' @ near_name x @ '' - Expires in ''
                      @ intToString plat (daysUntilExpiry x) @ '' day''
                      @ (if 1 < daysUntilExpiry x then ''s'' else [])
                      @ '' ('' @ formatDM plat (near_expiryDate x) @ '')'')
                 (take 10 nearList)
             @ (if 10 < length nearList
                then [''_...and '' @ natToString (length nearList - 10) @ '' more items_'']
                else [])
             @ [[]])
     @ (if lowList = [] then []
        else [packageMark @ '' *Low Stock ('' @ natToString (length lowList) @ ''):*'']
             @ map (\<lambda>x. (if low_quantity x = 0 then redMark else warningMark)
                      @ '' '' @ low_name x @ '' - ''
                      @ (if low_quantity x = 0 then ''Out of stock''
                         else ''Only '' @ intToString plat (low_quantity x) @ '' left''))
                 (take 10 lowList)
             @ (if 10 < length lowList
                then [''_...and '' @ natToString (length lowList - 10) @ '' more items_'']
                else [])
             @ [[]])
   in formatAlertMessage plat now storeNm expiredList nearList lowList =
        concat (map (\<lambda>l. l @ [CHR 0x0A]) digestLines)
          @ pointMark @ '' [Open Dashboard](https://vyaparcopilot.web.app)''
      \<and> ((\<forall>t. CHR 0x0A \<notin> set (formatDMY plat t))
           \<and> (\<forall>t. CHR 0x0A \<notin> set (formatDM plat t))
           \<and> (\<forall>n. CHR 0x0A \<notin> set (exponentString plat n))
           \<and> CHR 0x0A \<notin> set storeNm
           \<and> (\<forall>x\<in>set expiredList. CHR 0x0A \<notin> set (expired_name x))
           \<and> (\<forall>x\<in>set nearList. CHR 0x0A \<notin> set (near_name x))
           \<and> (\<forall>x\<in>set lowList. CHR 0x0A \<notin> set (low_name x)) \<longrightarrow>
          splitLines (formatAlertMessage plat now storeNm expiredList nearList lowList) =
            digestLines @ [pointMark @ '' [Open Dashboard](https://vyaparcopilot.web.app)''])
      \<and> (\<forall>n. decimalValue (natToString n) = n)"
proof -
  let ?et = "\<lambda>x. redMark @ '' '' @ expired_name x @ '' - ''
                      @ (if daysExpired x = 0 then ''Expired today''
                         else ''Expired '' @ intToString plat (daysExpired x) @ '' day''
                                @ (if 1 < daysExpired x then ''s'' else []) @ '' ago'')"
  let ?nt = "\<lambda>x. (if daysUntilExpiry x = 1 then redMark
                          else if daysUntilExpiry x \<le> 3 then orangeMark else yellowMark)
                      @ '' '' @ near_name x @ '' - Expires in ''
                      @ intToString plat (daysUntilExpiry x) @ '' day''
                      @ (if 1 < daysUntilExpiry x then ''s'' else [])
                      @ '' ('' @ formatDM plat (near_expiryDate x) @ '')''"
  let ?lt = "\<lambda>x. (if low_quantity x = 0 then redMark else warningMark)
                      @ '' '' @ low_name x @ '' - ''
                      @ (if low_quantity x = 0 then ''Out of stock''
                         else ''Only '' @ intToString plat (low_quantity x) @ '' left'')"
  let ?eh = "\<lambda>n. crossMark @ '' *Expired Items ('' @ natToString n @ ''):*''"
  let ?nh = "\<lambda>n. calendarMark @ '' *Expiring Soon ('' @ natToString n @ ''):*''"
  let ?lh = "\<lambda>n. packageMark @ '' *Low Stock ('' @ natToString n @ ''):*''"
  have el: "expiredLine plat = (\<lambda>x. ?et x @ newline)"
    by (intro ext) (simp add: expiredLine_def pluralDays_def Let_def)
  have nl: "nearLine plat = (\<lambda>x. ?nt x @ newline)"
    by (intro ext) (simp add: nearLine_def pluralDays_def Let_def)
  have ll: "lowLine plat = (\<lambda>x. ?lt x @ newline)"
    by (intro ext) (simp add: lowLine_def Let_def)
  have eh: "expiredHeading = (\<lambda>n. ?eh n @ newline)"
    by (intro ext) (simp add: expiredHeading_def)
  have nh: "nearHeading = (\<lambda>n. ?nh n @ newline)"
    by (intro ext) (simp add: nearHeading_def)
  have lh: "lowHeading = (\<lambda>n. ?lh n @ newline)"
    by (intro ext) (simp add: lowHeading_def)
  have parts: "formatAlertMessage plat now storeNm expiredList nearList lowList =
      messageHeader plat now storeNm
        @ (renderedSection expiredHeading (expiredLine plat) expiredList
        @ (renderedSection nearHeading (nearLine plat) nearList
        @ (renderedSection lowHeading (lowLine plat) lowList
        @ messageFooter)))"
    by (simp add: formatAlertMessage_def Let_def appendSection_rendered)
  have headText: "messageHeader plat now storeNm =
      concat (map (\<lambda>l. l @ [CHR 0x0A])
        [sirenMark @ '' *Daily Inventory Alert*'', storeNm @ '' - '' @ formatDMY plat now, []])"
    by (simp add: messageHeader_def Let_def newline_def)
  have secEText: "renderedSection expiredHeading (expiredLine plat) expiredList =
      concat (map (\<lambda>l. l @ [CHR 0x0A])
        (if expiredList = [] then []
         else [?eh (length expiredList)] @ map ?et (take 10 expiredList)
              @ (if 10 < length expiredList
                 then [''_...and '' @ natToString (length expiredList - 10) @ '' more items_'']
                 else [])
              @ [[]]))"
    unfolding el eh by (rule section_as_lines [of ?eh ?et])
  have secNText: "renderedSection nearHeading (nearLine plat) nearList =
      concat (map (\<lambda>l. l @ [CHR 0x0A])
        (if nearList = [] then []
         else [?nh (length nearList)] @ map ?nt (take 10 nearList)
              @ (if 10 < length nearList
                 then [''_...and '' @ natToString (length nearList - 10) @ '' more items_'']
                 else [])
              @ [[]]))"
    unfolding nl nh by (rule section_as_lines [of ?nh ?nt])
  have secLText: "renderedSection lowHeading (lowLine plat) lowList =
      concat (map (\<lambda>l. l @ [CHR 0x0A])
        (if lowList = [] then []
         else [?lh (length lowList)] @ map ?lt (take 10 lowList)
              @ (if 10 < length lowList
                 then [''_...and '' @ natToString (length lowList - 10) @ '' more items_'']
                 else [])
              @ [[]]))"
    unfolding ll lh by (rule section_as_lines [of ?lh ?lt])
  have A: "formatAlertMessage plat now storeNm expiredList nearList lowList =
        concat (map (\<lambda>l. l @ [CHR 0x0A])
          ([sirenMark @ '' *Daily Inventory Alert*'', storeNm @ '' - '' @ formatDMY plat now, []]
     @ (if expiredList = [] then []
        else [crossMark @ '' *Expired Items ('' @ natToString (length expiredList) @ ''):*'']
             @ map (\<lambda>x. redMark @ '' '' @ expired_name x @ '' - ''
                      @ (if daysExpired x = 0 then ''Expired today''
                         else ''Expired '' @ intToString plat (daysExpired x) @ '' day''
                                @ (if 1 < daysExpired x then ''s'' else []) @ '' ago''))
                 (take 10 expiredList)
             @ (if 10 < length expiredList
                then [''_...and '' @ natToString (length expiredList - 10) @ '' more items_'']
                else [])
             @ [[]])
     @ (if nearList = [] then []
        else [calendarMark @ '' *Expiring Soon ('' @ natToString (length nearList) @ ''):*'']
             @ map (\<lambda>x. (if daysUntilExpiry x = 1 then redMark
                          else if daysUntilExpiry x \<le> 3 then orangeMark else yellowMark)
                      @ '' '' @ near_name x @ '' - Expires in ''
                      @ intToString plat (daysUntilExpiry x) @ '' day''
                      @ (if 1 < daysUntilExpiry x then ''s'' else [])
                      @ '' ('' @ formatDM plat (near_expiryDate x) @ '')'')
                 (take 10 nearList)
             @ (if 10 < length nearList
                then [''_...and '' @ natToString (length nearList - 10) @ '' more items_'']
                else [])
             @ [[]])
     @ (if lowList = [] then []
        else [packageMark @ '' *Low Stock ('' @ natToString (length lowList) @ ''):*'']
             @ map (\<lambda>x. (if low_quantity x = 0 then redMark else warningMark)
                      @ '' '' @ low_name x @ '' - ''
                      @ (if low_quantity x = 0 then ''Out of stock''
                         else ''Only '' @ intToString plat (low_quantity x) @ '' left''))
                 (take 10 lowList)
             @ (if 10 < length lowList
                then [''_...and '' @ natToString (length lowList - 10) @ '' more items_'']
                else [])
             @ [[]])))
          @ pointMark @ '' [Open Dashboard](https://vyaparcopilot.web.app)''"
    unfolding parts headText secEText secNText secLText messageFooter_def
    by (simp only: map_append concat_append append_assoc)
  have B: "splitLines (formatAlertMessage plat now storeNm expiredList nearList lowList) =
            ([sirenMark @ '' *Daily Inventory Alert*'', storeNm @ '' - '' @ formatDMY plat now, []]
     @ (if expiredList = [] then []
        else [crossMark @ '' *Expired Items ('' @ natToString (length expiredList) @ ''):*'']
             @ map (\<lambda>x. redMark @ '' '' @ expired_name x @ '' - ''
                      @ (if daysExpired x = 0 then ''Expired today''
                         else ''Expired '' @ intToString plat (daysExpired x) @ '' day''
                                @ (if 1 < daysExpired x then ''s'' else []) @ '' ago''))
                 (take 10 expiredList)
             @ (if 10 < length expiredList
                then [''_...and '' @ natToString (length expiredList - 10) @ '' more items_'']
                else [])
             @ [[]])
     @ (if nearList = [] then []
        else [calendarMark @ '' *Expiring Soon ('' @ natToString (length nearList) @ ''):*'']
             @ map (\<lambda>x. (if daysUntilExpiry x = 1 then redMark
                          else if daysUntilExpiry x \<le> 3 then orangeMark else yellowMark)
                      @ '' '' @ near_name x @ '' - Expires in ''
                      @ intToString plat (daysUntilExpiry x) @ '' day''
                      @ (if 1 < daysUntilExpiry x then ''s'' else [])
                      @ '' ('' @ formatDM plat (near_expiryDate x) @ '')'')
                 (take 10 nearList)
             @ (if 10 < length nearList
                then [''_...and '' @ natToString (length nearList - 10) @ '' more items_'']
                else [])
             @ [[]])
     @ (if lowList = [] then []
        else [packageMark @ '' *Low Stock ('' @ natToString (length lowList) @ ''):*'']
             @ map (\<lambda>x. (if low_quantity x = 0 then redMark else warningMark)
                      @ '' '' @ low_name x @ '' - ''
                      @ (if low_quantity x = 0 then ''Out of stock''
                         else ''Only '' @ intToString plat (low_quantity x) @ '' left''))
                 (take 10 lowList)
             @ (if 10 < length lowList
                then [''_...and '' @ natToString (length lowList - 10) @ '' more items_'']
                else [])
             @ [[]])) @ [pointMark @ '' [Open Dashboard](https://vyaparcopilot.web.app)'']"
    if hyps: "(\<forall>t. CHR 0x0A \<notin> set (formatDMY plat t))
           \<and> (\<forall>t. CHR 0x0A \<notin> set (formatDM plat t))
           \<and> (\<forall>n. CHR 0x0A \<notin> set (exponentString plat n))
           \<and> CHR 0x0A \<notin> set storeNm
           \<and> (\<forall>x\<in>set expiredList. CHR 0x0A \<notin> set (expired_name x))
           \<and> (\<forall>x\<in>set nearList. CHR 0x0A \<notin> set (near_name x))
           \<and> (\<forall>x\<in>set lowList. CHR 0x0A \<notin> set (low_name x))"
  proof -
    note num = intToString_no_newline [of plat]
    have x: "\<forall>n. CHR 0x0A \<notin> set (exponentString plat n)"
      using hyps by blast
    have e1: "CHR 0x0A \<notin> set (?eh n)" for n
      by (simp add: marks_no_newline natToString_no_newline)
    have n1: "CHR 0x0A \<notin> set (?nh n)" for n
      by (simp add: marks_no_newline natToString_no_newline)
    have l1: "CHR 0x0A \<notin> set (?lh n)" for n
      by (simp add: marks_no_newline natToString_no_newline)
    have e2: "\<forall>x\<in>set expiredList. CHR 0x0A \<notin> set (?et x)"
      using hyps by (simp add: marks_no_newline num [OF x])
    have n2: "\<forall>x\<in>set nearList. CHR 0x0A \<notin> set (?nt x)"
      using hyps by (simp add: marks_no_newline num [OF x])
    have l2: "\<forall>x\<in>set lowList. CHR 0x0A \<notin> set (?lt x)"
      using hyps by (simp add: marks_no_newline num [OF x])
    have foot: "splitLines messageFooter = [pointMark @ '' [Open Dashboard](https://vyaparcopilot.web.app)'']"
      unfolding messageFooter_def by (rule splitLines_last) (simp add: marks_no_newline)
    have h1: "CHR 0x0A \<notin> set (sirenMark @ '' *Daily Inventory Alert*'')"
      by (simp add: marks_no_newline)
    have h2: "CHR 0x0A \<notin> set (storeNm @ '' - '' @ formatDMY plat now)"
      using hyps by simp
    have head: "splitLines (messageHeader plat now storeNm @ rest) =
        [sirenMark @ '' *Daily Inventory Alert*'', storeNm @ '' - '' @ formatDMY plat now, []]
        @ splitLines rest" for rest
      using splitLines_line [OF h1,
          of "storeNm @ '' - '' @ formatDMY plat now @ CHR 0x0A # CHR 0x0A # rest"]
        splitLines_line [OF h2, of "CHR 0x0A # rest"] splitLines_line [of "[]" rest]
      by (simp add: messageHeader_def Let_def newline_def)
    have secE: "splitLines (renderedSection expiredHeading (expiredLine plat) expiredList @ rest) =
        (if expiredList = [] then []
         else [?eh (length expiredList)] @ map ?et (take 10 expiredList)
              @ (if 10 < length expiredList
                 then [''_...and '' @ natToString (length expiredList - 10) @ '' more items_'']
                 else [])
              @ [[]])
        @ splitLines rest" for rest
      unfolding el eh by (rule splitLines_section [of ?eh, OF e1 e2])
    have secN: "splitLines (renderedSection nearHeading (nearLine plat) nearList @ rest) =
        (if nearList = [] then []
         else [?nh (length nearList)] @ map ?nt (take 10 nearList)
              @ (if 10 < length nearList
                 then [''_...and '' @ natToString (length nearList - 10) @ '' more items_'']
                 else [])
              @ [[]])
        @ splitLines rest" for rest
      unfolding nl nh by (rule splitLines_section [of ?nh, OF n1 n2])
    have secL: "splitLines (renderedSection lowHeading (lowLine plat) lowList @ rest) =
        (if lowList = [] then []
         else [?lh (length lowList)] @ map ?lt (take 10 lowList)
              @ (if 10 < length lowList
                 then [''_...and '' @ natToString (length lowList - 10) @ '' more items_'']
                 else [])
              @ [[]])
        @ splitLines rest" for rest
      unfolding ll lh by (rule splitLines_section [of ?lh, OF l1 l2])
    show ?thesis
      unfolding parts by (simp only: head secE secN secL foot append_assoc)
  qed
  show ?thesis
    unfolding Let_def using A B decimalValue_natToString by blast
qed

text \<open>
  One expired entry, one entry near expiry and eleven low-stock entries: the low-stock
  section has ten entry lines and one line for the entry that is left.
\<close>

theorem sections_witness:
  "splitLines (formatAlertMessage demoPlatform demoNow ''Asha Kirana''
      [curdEntry] [milkEntry] elevenLow) =
     [sirenMark @ '' *Daily Inventory Alert*'',
      ''Asha Kirana - 1 Nov 2026'',
      [],
      crossMark @ '' *Expired Items (1):*'',
      redMark @ '' Curd - Expired 3 days ago'',
      [],
      calendarMark @ '' *Expiring Soon (1):*'',
      redMark @ '' Milk - Expires in 1 day (2 Nov)'',
      [],
      packageMark @ '' *Low Stock (11):*'',
      redMark @ '' Salt - Out of stock'',
      redMark @ '' Salt - Out of stock'',
      warningMark @ '' Soap - Only 3 left'',
      warningMark @ '' Soap - Only 3 left'',
      warningMark @ '' Soap - Only 3 left'',
      warningMark @ '' Soap - Only 3 left'',
      warningMark @ '' Soap - Only 3 left'',
      warningMark @ '' Soap - Only 3 left'',
      warningMark @ '' Soap - Only 3 left'',
      warningMark @ '' Soap - Only 3 left'',
      ''_...and 1 more items_'',
      [],
      pointMark @ '' [Open Dashboard](https://vyaparcopilot.web.app)'']
   \<and> decimalValue ''11'' = 11"
proof -
  have p: "\<forall>t. CHR 0x0A \<notin> set (formatDMY demoPlatform t)"
    "\<forall>t. CHR 0x0A \<notin> set (formatDM demoPlatform t)"
    "\<forall>n. CHR 0x0A \<notin> set (exponentString demoPlatform n)"
    by (simp_all add: demoPlatform_def Let_def)
  have n: "CHR 0x0A \<notin> set ''Asha Kirana''"
    "\<forall>x\<in>set [curdEntry]. CHR 0x0A \<notin> set (expired_name x)"
    "\<forall>x\<in>set [milkEntry]. CHR 0x0A \<notin> set (near_name x)"
    "\<forall>x\<in>set elevenLow. CHR 0x0A \<notin> set (low_name x)"
    by (simp_all add: curdEntry_def milkEntry_def elevenLow_def)
  have v: "natToString (Suc 0) = ''1''" "natToString 3 = ''3''" "natToString 11 = ''11''"
    by (simp_all add: natToString.simps)
  have l: "length elevenLow = 11" "elevenLow \<noteq> []"
    by (auto simp: elevenLow_def)
  have t: "take 10 elevenLow =
      replicate 2 \<lparr>low_name = ''Salt'', low_quantity = 0\<rparr>
        @ replicate 8 \<lparr>low_name = ''Soap'', low_quantity = 3\<rparr>"
    by (simp add: elevenLow_def)
  have r: "replicate 2 x = [x, x]" "replicate 8 x = [x, x, x, x, x, x, x, x]" for x :: 'a
    by (simp_all add: eval_nat_numeral)
  have f: "formatDMY demoPlatform demoNow = ''1 Nov 2026''"
    "formatDM demoPlatform 1793577600000 = ''2 Nov''"
    by (simp_all add: demoPlatform_def demoNow_def)
  have i: "intToString demoPlatform 3 = ''3''" "intToString demoPlatform 1 = ''1''"
    by (simp_all add: intToString_def v)
  have d: "decimalValue ''11'' = 11"
    by (simp add: decimalValue_def)
  show ?thesis
    using sections_render_at_most_ten_entries
      [where plat = demoPlatform and now = demoNow and storeNm = "''Asha Kirana''"
        and expiredList = "[curdEntry]" and nearList = "[milkEntry]" and lowList = elevenLow,
        unfolded Let_def, THEN conjunct2, THEN conjunct1] p n d
    by (simp add: curdEntry_def milkEntry_def l t r f i v)
qed

text \<open>
  Claim C8, as the code has it. The composer is a function of its arguments and of the
  date of the clock when it renders: two invocations with the same store name and the same
  three lists produce the same text whenever their render times have the same formatted
  date. The run date is not an argument of the composer.
\<close>

theorem digest_depends_on_render_date_only:
  assumes "formatDMY plat now1 = formatDMY plat now2"
  shows "formatAlertMessage plat now1 storeNm expiredList nearList lowList =
         formatAlertMessage plat now2 storeNm expiredList nearList lowList"
  using assms by (simp add: formatAlertMessage_def messageHeader_def Let_def)

text \<open>
  Two render times within the same day.
\<close>

theorem digest_same_day_witness:
  "formatDMY demoPlatform demoNow = formatDMY demoPlatform (demoNow + 3600000)
   \<and> formatAlertMessage demoPlatform demoNow ''Asha Kirana'' [] []
        [\<lparr>low_name = ''Salt'', low_quantity = 3\<rparr>]
     = formatAlertMessage demoPlatform (demoNow + 3600000) ''Asha Kirana'' [] []
        [\<lparr>low_name = ''Salt'', low_quantity = 3\<rparr>]"
proof -
  have h: "formatDMY demoPlatform demoNow = formatDMY demoPlatform (demoNow + 3600000)"
    by (simp add: demoPlatform_def demoNow_def)
  show ?thesis
    using h digest_depends_on_render_date_only [OF h] by simp
qed

text \<open>
  The same store name and the same lists, rendered one day apart, give two different
  texts: the content depends on the time of rendering.
\<close>

theorem digest_render_time_counterexample:
  "formatAlertMessage demoPlatform demoNow ''Asha Kirana'' [] []
       [\<lparr>low_name = ''Salt'', low_quantity = 3\<rparr>]
   \<noteq> formatAlertMessage demoPlatform (demoNow + 86400000) ''Asha Kirana'' [] []
       [\<lparr>low_name = ''Salt'', low_quantity = 3\<rparr>]"
  by (simp add: formatAlertMessage_def messageHeader_def demoPlatform_def demoNow_def Let_def
      appendSection_rendered renderedSection_def)

section \<open>Properties of the dispatcher\<close>

lemma map_of_touch:
  "map_of (map (\<lambda>(k, d). if k = docId then (k, f d) else (k, d)) subs) x =
     (if x = docId then map_option f (map_of subs x) else map_of subs x)"
  by (induction subs) auto

lemma map_of_remove:
  "map_of (filter (\<lambda>(k, d). k \<noteq> docId) subs) x =
     (if x = docId then None else map_of subs x)"
  by (induction subs) auto

lemma updateLastAlertSent_other:
  "x \<noteq> docId \<Longrightarrow>
   map_of (snd (snd (updateLastAlertSent e w sid docId subs))) x = map_of subs x"
  by (simp add: updateLastAlertSent_def map_of_touch split: prod.splits)

lemma deleteSubscriber_other:
  "x \<noteq> docId \<Longrightarrow>
   map_of (snd (snd (deleteSubscriber e w sid docId subs))) x = map_of subs x"
  by (simp add: deleteSubscriber_def map_of_remove split: prod.splits)

lemma deliver_other:
  assumes "x \<noteq> docId"
  shows "map_of (fst (snd (deliver e sid message (w, subs, n) (docId, sub)))) x = map_of subs x"
proof -
  obtain reply w1 where s: "sendMessage e w (chatId sub) message = (reply, w1)"
    by (cases "sendMessage e w (chatId sub) message")
  show ?thesis
  proof (cases reply)
    case (Inl thrown)
    with s show ?thesis by (simp add: deliver_def)
  next
    case (Inr result)
    obtain r2 w2 subs2 where u: "updateLastAlertSent e w1 sid docId subs = (r2, w2, subs2)"
      by (cases "updateLastAlertSent e w1 sid docId subs")
    obtain r3 w3 subs3 where d: "deleteSubscriber e w1 sid docId subs = (r3, w3, subs3)"
      by (cases "deleteSubscriber e w1 sid docId subs")
    have "map_of subs2 x = map_of subs x"
      using updateLastAlertSent_other [OF assms, of e w1 sid subs] u by simp
    moreover have "map_of subs3 x = map_of subs x"
      using deleteSubscriber_other [OF assms, of e w1 sid subs] d by simp
    ultimately show ?thesis
      using s Inr u d by (simp add: deliver_def split: sum.splits)
  qed
qed

lemma notify_other:
  assumes "x \<notin> fst ` set docs"
  shows "map_of (fst (snd (notifySubscribers e sid message (w, subs, n) docs))) x = map_of subs x"
  using assms
proof (induction docs arbitrary: w subs n)
  case Nil
  show ?case by (simp add: notifySubscribers_def)
next
  case (Cons doc docs)
  obtain docId sub where doc: "doc = (docId, sub)" by (cases doc)
  obtain w1 subs1 n1 where st: "deliver e sid message (w, subs, n) (docId, sub) = (w1, subs1, n1)"
    by (cases "deliver e sid message (w, subs, n) (docId, sub)")
  have ne: "x \<noteq> docId" and rest: "x \<notin> fst ` set docs"
    using Cons.prems doc by auto
  have "map_of subs1 x = map_of subs x"
    using deliver_other [OF ne, of e sid message w subs n sub] st by simp
  moreover have "map_of (fst (snd (notifySubscribers e sid message (w1, subs1, n1) docs))) x
      = map_of subs1 x"
    by (rule Cons.IH [OF rest])
  ultimately show ?case
    using doc st by (simp add: notifySubscribers_def)
qed

lemma deliver_own:
  assumes present: "map_of subs docId = Some sub"
    and reply: "sendMessage e w (chatId sub) message = (reply, w1)"
    and upd: "firestore e w1 (UpdateSubscriber sid docId) = (servedUpdate, wu)"
    and del: "firestore e w1 (DeleteSubscriber sid docId) = (servedDelete, wd)"
  shows "map_of (fst (snd (deliver e sid message (w, subs, n) (docId, sub)))) docId =
     (case reply of
        Inl thrown \<Rightarrow> Some sub
      | Inr result \<Rightarrow>
          if success result
          then (if servedUpdate
                then Some (sub\<lparr>lastAlertSent := Some (serverTimestamp e wu)\<rparr>) else Some sub)
          else if blocked result then (if servedDelete then None else Some sub)
          else Some sub)"
proof -
  have mem: "docId \<in> fst ` set subs"
    using present by (auto dest: map_of_SomeD intro: rev_image_eqI)
  show ?thesis
    using reply present mem
    by (simp add: deliver_def updateLastAlertSent_def deleteSubscriber_def upd del map_of_touch
        map_of_remove split: sum.splits)
qed

lemma distinct_fst_split:
  assumes "distinct (map fst subs)" and "k < length subs" and "subs ! k = (docId, sub)"
  shows "docId \<notin> fst ` set (take k subs)" and "docId \<notin> fst ` set (drop (Suc k) subs)"
    and "map_of subs docId = Some sub"
proof -
  have split: "subs = take k subs @ (docId, sub) # drop (Suc k) subs"
    using assms(2,3) by (metis id_take_nth_drop)
  have "distinct (map fst (take k subs @ (docId, sub) # drop (Suc k) subs))"
    using assms(1) split by simp
  then show "docId \<notin> fst ` set (take k subs)" and "docId \<notin> fst ` set (drop (Suc k) subs)"
    by auto
  have "(docId, sub) \<in> set subs"
    using assms(2,3) by (metis nth_mem)
  then show "map_of subs docId = Some sub"
    using assms(1) by (rule map_of_is_SomeI [rotated])
qed

text \<open>
  Claim C1, as the code has it. Let the subscriber collection have distinct document ids,
  take the \<open>k\<close>-th enumerated subscriber, and let \<open>reply\<close> be what the gateway answers
  when the loop reaches it. After the loop, the record of the subscriber is the old one
  with \<open>lastAlertSent\<close> set to the time of the write if the reply is a success and the
  store accepts the update; the record is absent if and only if the reply is a failure
  flagged as blocked and the store accepts the deletion; and in every other case (any
  other reply, a send that throws, a write that the store rejects, which is caught) the
  record is the old one. This holds for every \<open>k\<close>: the loop goes on to every
  subscriber.
\<close>

theorem subscriber_fate_follows_gateway_outcome:
  assumes "distinct (map fst subs)"
    and "k < length subs"
    and "subs ! k = (docId, sub)"
    and "notifySubscribers e sid message (w, subs, 0) (take k subs) = (wk, subsk, nk)"
    and "sendMessage e wk (chatId sub) message = (reply, w1)"
    and "firestore e w1 (UpdateSubscriber sid docId) = (servedUpdate, wu)"
    and "firestore e w1 (DeleteSubscriber sid docId) = (servedDelete, wd)"
    and "notifySubscribers e sid message (w, subs, 0) subs = (wEnd, final, sent)"
  shows "((\<exists>result. reply = Inr result \<and> success result) \<and> servedUpdate \<longrightarrow>
            map_of final docId =
              Some (sub\<lparr>lastAlertSent := Some (serverTimestamp e wu)\<rparr>))
       \<and> ((map_of final docId = None) =
            ((\<exists>result. reply = Inr result \<and> \<not> success result \<and> blocked result)
             \<and> servedDelete))
       \<and> (\<not> ((\<exists>result. reply = Inr result \<and> success result) \<and> servedUpdate)
          \<and> \<not> ((\<exists>result. reply = Inr result \<and> \<not> success result \<and> blocked result)
                \<and> servedDelete) \<longrightarrow>
            map_of final docId = Some sub)"
proof -
  note parts = distinct_fst_split [OF assms(1) assms(2) assms(3)]
  have split: "subs = take k subs @ (docId, sub) # drop (Suc k) subs"
    using assms(2,3) by (metis id_take_nth_drop)
  obtain w2 subs2 n2 where step:
    "deliver e sid message (wk, subsk, nk) (docId, sub) = (w2, subs2, n2)"
    by (cases "deliver e sid message (wk, subsk, nk) (docId, sub)")
  have "notifySubscribers e sid message (w, subs, 0)
          (take k subs @ (docId, sub) # drop (Suc k) subs) =
        notifySubscribers e sid message (w2, subs2, n2) (drop (Suc k) subs)"
    using assms(4) step by (simp add: notifySubscribers_def)
  then have rest: "notifySubscribers e sid message (w2, subs2, n2) (drop (Suc k) subs) =
      (wEnd, final, sent)"
    using assms(8) split by simp
  have before: "map_of subsk docId = Some sub"
    using notify_other [OF parts(1), of e sid message w subs 0] assms(4) parts(3) by simp
  have at: "map_of subs2 docId =
     (case reply of
        Inl thrown \<Rightarrow> Some sub
      | Inr result \<Rightarrow>
          if success result
          then (if servedUpdate
                then Some (sub\<lparr>lastAlertSent := Some (serverTimestamp e wu)\<rparr>) else Some sub)
          else if blocked result then (if servedDelete then None else Some sub)
          else Some sub)"
    using deliver_own [OF before assms(5) assms(6) assms(7), of nk] step by simp
  have after: "map_of final docId = map_of subs2 docId"
    using notify_other [OF parts(2), of e sid message w2 subs2 n2] rest by simp
  show ?thesis
    unfolding after at by (cases reply) auto
qed

text \<open>
  Four subscribers whose sends succeed, are blocked, fail and throw, with a store that
  accepts the writes; and the first of them with a store that rejects them.
\<close>

theorem subscriber_fate_witness:
  "map_of (fst (snd (notifySubscribers demoEnv ''shop1'' ''digest''
      (demoWorld, demoSubscribers, 0) demoSubscribers))) ''9001''
     = Some \<lparr>telegramUserId = 9001, chatId = 101, lastAlertSent = Some (demoNow + 110)\<rparr>
   \<and> map_of (fst (snd (notifySubscribers demoEnv ''shop1'' ''digest''
      (demoWorld, demoSubscribers, 0) demoSubscribers))) ''9002'' = None
   \<and> map_of (fst (snd (notifySubscribers demoEnv ''shop1'' ''digest''
      (demoWorld, demoSubscribers, 0) demoSubscribers))) ''9003''
     = Some \<lparr>telegramUserId = 9003, chatId = 103, lastAlertSent = None\<rparr>
   \<and> map_of (fst (snd (notifySubscribers demoEnv ''shop1'' ''digest''
      (demoWorld, demoSubscribers, 0) demoSubscribers))) ''9004''
     = Some \<lparr>telegramUserId = 9004, chatId = 104, lastAlertSent = None\<rparr>
   \<and> map_of (fst (snd (notifySubscribers rejectingEnv ''shop1'' ''digest''
      (demoWorld, demoSubscribers, 0) demoSubscribers))) ''9001''
     = Some \<lparr>telegramUserId = 9001, chatId = 101, lastAlertSent = None\<rparr>"
proof -
  have d: "distinct (map fst demoSubscribers)"
    by (simp add: demoSubscribers_def)
  have s: "firestore demoEnv w r = (True, w\<lparr>world_time := world_time w + 10\<rparr>)" for w r
    by (simp add: demoEnv_def)
  obtain wEnd final sent where f:
    "notifySubscribers demoEnv ''shop1'' ''digest'' (demoWorld, demoSubscribers, 0)
       demoSubscribers = (wEnd, final, sent)"
    by (cases "notifySubscribers demoEnv ''shop1'' ''digest'' (demoWorld, demoSubscribers, 0)
       demoSubscribers")
  have k0: "notifySubscribers demoEnv ''shop1'' ''digest'' (demoWorld, demoSubscribers, 0)
       (take 0 demoSubscribers) = (demoWorld, demoSubscribers, 0)"
    by (simp add: notifySubscribers_def)
  have r0: "sendMessage demoEnv demoWorld
        (chatId \<lparr>telegramUserId = 9001, chatId = 101, lastAlertSent = None\<rparr>) ''digest'' =
      (Inr \<lparr>success = True, blocked = False, error = []\<rparr>,
       \<lparr>world_time = demoNow + 100, world_sent = [(101, ''digest'')]\<rparr>)"
    by (simp add: demoEnv_def demoReply_def demoWorld_def)
  have c0: "map_of final ''9001'' =
      Some \<lparr>telegramUserId = 9001, chatId = 101, lastAlertSent = Some (demoNow + 110)\<rparr>"
    using subscriber_fate_follows_gateway_outcome [OF d _ _ k0 r0 s s f, of "''9001''"]
    by (simp add: demoSubscribers_def demoEnv_def)
  obtain w1 subs1 n1 where k1:
    "notifySubscribers demoEnv ''shop1'' ''digest'' (demoWorld, demoSubscribers, 0)
       (take 1 demoSubscribers) = (w1, subs1, n1)"
    by (cases "notifySubscribers demoEnv ''shop1'' ''digest'' (demoWorld, demoSubscribers, 0)
       (take 1 demoSubscribers)")
  have r1: "sendMessage demoEnv w1
        (chatId \<lparr>telegramUserId = 9002, chatId = 102, lastAlertSent = Some 1793400000000\<rparr>)
        ''digest'' =
      (demoReply 102, snd (sendMessage demoEnv w1 102 ''digest''))"
    by (simp add: demoEnv_def)
  have c1: "map_of final ''9002'' = None"
    using subscriber_fate_follows_gateway_outcome [OF d _ _ k1 r1 s s f, of "''9002''"]
    by (simp add: demoSubscribers_def demoReply_def)
  obtain w2 subs2 n2 where k2:
    "notifySubscribers demoEnv ''shop1'' ''digest'' (demoWorld, demoSubscribers, 0)
       (take 2 demoSubscribers) = (w2, subs2, n2)"
    by (cases "notifySubscribers demoEnv ''shop1'' ''digest'' (demoWorld, demoSubscribers, 0)
       (take 2 demoSubscribers)")
  have r2: "sendMessage demoEnv w2
        (chatId \<lparr>telegramUserId = 9003, chatId = 103, lastAlertSent = None\<rparr>) ''digest'' =
      (demoReply 103, snd (sendMessage demoEnv w2 103 ''digest''))"
    by (simp add: demoEnv_def)
  have c2: "map_of final ''9003'' =
      Some \<lparr>telegramUserId = 9003, chatId = 103, lastAlertSent = None\<rparr>"
    using subscriber_fate_follows_gateway_outcome [OF d _ _ k2 r2 s s f, of "''9003''"]
    by (simp add: demoSubscribers_def demoReply_def)
  obtain w3 subs3 n3 where k3:
    "notifySubscribers demoEnv ''shop1'' ''digest'' (demoWorld, demoSubscribers, 0)
       (take 3 demoSubscribers) = (w3, subs3, n3)"
    by (cases "notifySubscribers demoEnv ''shop1'' ''digest'' (demoWorld, demoSubscribers, 0)
       (take 3 demoSubscribers)")
  have r3: "sendMessage demoEnv w3
        (chatId \<lparr>telegramUserId = 9004, chatId = 104, lastAlertSent = None\<rparr>) ''digest'' =
      (demoReply 104, snd (sendMessage demoEnv w3 104 ''digest''))"
    by (simp add: demoEnv_def)
  have c3: "map_of final ''9004'' =
      Some \<lparr>telegramUserId = 9004, chatId = 104, lastAlertSent = None\<rparr>"
    using subscriber_fate_follows_gateway_outcome [OF d _ _ k3 r3 s s f, of "''9004''"]
    by (simp add: demoSubscribers_def demoReply_def)
  have t: "firestore rejectingEnv w (UpdateSubscriber sid docId) =
      (False, w\<lparr>world_time := world_time w + 10\<rparr>)"
    "firestore rejectingEnv w (DeleteSubscriber sid docId) =
      (False, w\<lparr>world_time := world_time w + 10\<rparr>)" for w sid docId
    by (simp_all add: rejectingEnv_def demoEnv_def)
  obtain wEnd' final' sent' where f':
    "notifySubscribers rejectingEnv ''shop1'' ''digest'' (demoWorld, demoSubscribers, 0)
       demoSubscribers = (wEnd', final', sent')"
    by (cases "notifySubscribers rejectingEnv ''shop1'' ''digest''
       (demoWorld, demoSubscribers, 0) demoSubscribers")
  have k0': "notifySubscribers rejectingEnv ''shop1'' ''digest'' (demoWorld, demoSubscribers, 0)
       (take 0 demoSubscribers) = (demoWorld, demoSubscribers, 0)"
    by (simp add: notifySubscribers_def)
  have r0': "sendMessage rejectingEnv demoWorld
        (chatId \<lparr>telegramUserId = 9001, chatId = 101, lastAlertSent = None\<rparr>) ''digest'' =
      (Inr \<lparr>success = True, blocked = False, error = []\<rparr>,
       \<lparr>world_time = demoNow + 100, world_sent = [(101, ''digest'')]\<rparr>)"
    by (simp add: rejectingEnv_def demoEnv_def demoReply_def demoWorld_def)
  have c4: "map_of final' ''9001'' =
      Some \<lparr>telegramUserId = 9001, chatId = 101, lastAlertSent = None\<rparr>"
    using subscriber_fate_follows_gateway_outcome [OF d _ _ k0' r0' t(1) t(2) f', of "''9001''"]
    by (simp add: demoSubscribers_def)
  show ?thesis
    using c0 c1 c2 c3 c4 f f' by simp
qed

text \<open>
  With a store that rejects the writes, the send to the first subscriber returns success
  and \<open>lastAlertSent\<close> is not updated, and the send to the second one reports it blocked
  and its record is not deleted.
\<close>

theorem subscriber_fate_counterexample:
  "fst (sendMessage rejectingEnv demoWorld 101 ''digest'') =
     Inr \<lparr>success = True, blocked = False, error = []\<rparr>
   \<and> map_of (fst (snd (notifySubscribers rejectingEnv ''shop1'' ''digest''
        (demoWorld, demoSubscribers, 0) demoSubscribers))) ''9001''
     = Some \<lparr>telegramUserId = 9001, chatId = 101, lastAlertSent = None\<rparr>
   \<and> fst (sendMessage rejectingEnv
        (fst (notifySubscribers rejectingEnv ''shop1'' ''digest''
           (demoWorld, demoSubscribers, 0) (take 1 demoSubscribers))) 102 ''digest'') =
     Inr \<lparr>success = False, blocked = True, error = ''Forbidden: bot was blocked by the user''\<rparr>
   \<and> map_of (fst (snd (notifySubscribers rejectingEnv ''shop1'' ''digest''
        (demoWorld, demoSubscribers, 0) demoSubscribers))) ''9002''
     = Some \<lparr>telegramUserId = 9002, chatId = 102, lastAlertSent = Some 1793400000000\<rparr>"
  by code_simp

lemma getStoreSettings_gateway:
  "getStoreSettings (e\<lparr>sendMessage := g\<rparr>) w st = getStoreSettings e w st"
  by (simp add: getStoreSettings_def)

lemma fetchAndAnalyze_gateway:
  "fetchAndAnalyze (e\<lparr>sendMessage := g\<rparr>) (plat\<lparr>formatDMY := render, formatDM := renderShort\<rparr>) w st =
     fetchAndAnalyze e plat w st"
proof -
  have d: "daysUntil (plat\<lparr>formatDMY := render, formatDM := renderShort\<rparr>) = daysUntil plat"
    by (intro ext) (simp add: daysUntil_def split: option.splits sum.splits)
  have c: "classifyItem (plat\<lparr>formatDMY := render, formatDM := renderShort\<rparr>) = classifyItem plat"
    by (intro ext) (simp add: classifyItem_def d)
  have a: "analyzeInventory (plat\<lparr>formatDMY := render, formatDM := renderShort\<rparr>) = analyzeInventory plat"
    by (intro ext) (simp add: analyzeInventory_def c)
  show ?thesis
    by (simp add: fetchAndAnalyze_def getStoreSettings_gateway a split: prod.splits)
qed

text \<open>
  Claim C5. When the classification of a store has three empty lists, processing the
  store returns 0 alerts and leaves the subscribers and the world as they are after the
  classification, whatever the gateway and the date formatting are: the gateway is not
  called and no message is rendered. In the run, the store leaves the three counters as
  they are.
\<close>

theorem nothing_to_send_skips_delivery:
  assumes "fetchAndAnalyze e plat w st = (Inr (Some a), w1)"
    and "expired a = []" and "nearExpiry a = []" and "lowStock a = []"
  shows "processStoreAlerts (e\<lparr>sendMessage := g\<rparr>)
           (plat\<lparr>formatDMY := render, formatDM := renderShort\<rparr>) w st =
           (Inr 0, w1, subscribers st)
       \<and> processStore e plat (w, visited, counters) st = (w1, visited @ [st], counters)"
proof -
  have "processStoreAlerts e plat w st = (Inr 0, w1, subscribers st)"
    using assms by (simp add: processStoreAlerts_def alertSubscribers_def)
  then have "processStore e plat (w, visited, counters) st = (w1, visited @ [st], counters)"
    by (simp add: processStore_def)
  then show ?thesis
    using assms
    by (simp add: processStoreAlerts_def fetchAndAnalyze_gateway alertSubscribers_def)
qed

text \<open>
  A store that holds only rice, well stocked and without expiry date: nothing is handed to
  the gateway.
\<close>

theorem nothing_to_send_witness:
  "processStoreAlerts demoEnv demoPlatform demoWorld shop3 =
     (Inr 0, \<lparr>world_time = demoNow + 31, world_sent = []\<rparr>, demoSubscribers)"
proof -
  have a: "analyzeInventory demoPlatform t [rice] 7 5 = emptyAnalysis" for t
    by (simp add: analyzeInventory_def classifyItem_def daysUntil_def rice_def quantityOrZero_def
        arraySort_def emptyAnalysis_def)
  have f: "fetchAndAnalyze demoEnv demoPlatform demoWorld shop3 =
      (Inr (Some emptyAnalysis), \<lparr>world_time = demoNow + 31, world_sent = []\<rparr>)"
    by (simp add: fetchAndAnalyze_def getStoreSettings_def demoEnv_def demoWorld_def shop3_def
        shop1_def demoSubscribers_def overlay_def defaults_def a)
  show ?thesis
    using nothing_to_send_skips_delivery [OF f, where g = "sendMessage demoEnv"
        and render = "formatDMY demoPlatform" and renderShort = "formatDM demoPlatform"]
    by (simp add: shop3_def shop1_def)
qed

lemma overlay_flags:
  "lowStockThreshold (overlay d (doc\<lparr>stored_enableExpiryAlerts := x,
       stored_enableLowStockAlerts := y\<rparr>)) = lowStockThreshold (overlay d doc)"
  "expiryWarningDays (overlay d (doc\<lparr>stored_enableExpiryAlerts := x,
       stored_enableLowStockAlerts := y\<rparr>)) = expiryWarningDays (overlay d doc)"
  by (simp_all add: overlay_def)

lemma fetchAndAnalyze_flags:
  assumes "settingsDoc st = Some doc"
  shows "fetchAndAnalyze e plat w
           (st\<lparr>settingsDoc := Some (doc\<lparr>stored_enableExpiryAlerts := x,
                                         stored_enableLowStockAlerts := y\<rparr>)\<rparr>) =
         fetchAndAnalyze e plat w st"
  using assms
  by (simp add: fetchAndAnalyze_def getStoreSettings_def overlay_flags
      split: prod.splits)

text \<open>
  Claim C9. Changing \<open>enableExpiryAlerts\<close> and \<open>enableLowStockAlerts\<close> in the stored
  settings document of a store, to any values, changes neither the classification nor what
  processing the store returns, does to the world (every message sent) and does to the
  subscribers.
\<close>

theorem enable_flags_have_no_effect:
  assumes "settingsDoc st = Some doc"
  shows "fetchAndAnalyze e plat w
           (st\<lparr>settingsDoc := Some (doc\<lparr>stored_enableExpiryAlerts := x,
                                         stored_enableLowStockAlerts := y\<rparr>)\<rparr>) =
         fetchAndAnalyze e plat w st
       \<and> processStoreAlerts e plat w
           (st\<lparr>settingsDoc := Some (doc\<lparr>stored_enableExpiryAlerts := x,
                                         stored_enableLowStockAlerts := y\<rparr>)\<rparr>) =
         processStoreAlerts e plat w st"
proof -
  have "alertSubscribers e plat w' (st\<lparr>settingsDoc := sd\<rparr>) a = alertSubscribers e plat w' st a"
    for w' sd a
    by (simp add: alertSubscribers_def storeNameOrDefault_def)
  then show ?thesis
    by (simp add: processStoreAlerts_def fetchAndAnalyze_flags [OF assms]
        split: prod.splits sum.splits option.splits)
qed

lemma demo_shop1_alerts:
  "fst (processStoreAlerts demoEnv demoPlatform demoWorld shop1) = Inr 1"
  by code_simp

text \<open>
  With both flags set to false the store is processed as before, and its alert is sent.
\<close>

theorem enable_flags_witness:
  "processStoreAlerts demoEnv demoPlatform demoWorld
     (shop1\<lparr>settingsDoc := Some \<lparr>stored_lowStockThreshold = Some 5,
        stored_expiryWarningDays = None, stored_enableExpiryAlerts = Some False,
        stored_enableLowStockAlerts = Some False\<rparr>\<rparr>) =
   processStoreAlerts demoEnv demoPlatform demoWorld shop1
   \<and> fst (processStoreAlerts demoEnv demoPlatform demoWorld
        (shop1\<lparr>settingsDoc := Some \<lparr>stored_lowStockThreshold = Some 5,
           stored_expiryWarningDays = None, stored_enableExpiryAlerts = Some False,
           stored_enableLowStockAlerts = Some False\<rparr>\<rparr>)) = Inr 1"
proof -
  have d: "settingsDoc shop1 = Some \<lparr>stored_lowStockThreshold = Some 5,
        stored_expiryWarningDays = None, stored_enableExpiryAlerts = None,
        stored_enableLowStockAlerts = None\<rparr>"
    by (simp add: shop1_def)
  show ?thesis
    using enable_flags_have_no_effect [OF d, of demoEnv demoPlatform demoWorld
        "Some False" "Some False"]
    by (simp add: demo_shop1_alerts)
qed

section \<open>Properties of the orchestrator\<close>

lemma foldl_processStore:
  "\<exists>w' visited'.
     foldl (processStore e plat) (w, visited, c) stores =
       (w', visited',
        c\<lparr>successCount := successCount c +
              length (filter (\<lambda>r. 0 < alertsOf r) (storeOutcomes e plat w stores)),
          totalAlertsSent := totalAlertsSent c +
              sum_list (map alertsOf (storeOutcomes e plat w stores)),
          failureCount := failureCount c +
              length (filter isFailure (storeOutcomes e plat w stores))\<rparr>)
     \<and> length visited' = length visited + length stores"
proof (induction stores arbitrary: w visited c)
  case Nil
  show ?case by simp
next
  case (Cons st stores)
  obtain r w1 subs1 where p: "processStoreAlerts e plat w st = (r, w1, subs1)"
    by (cases "processStoreAlerts e plat w st")
  show ?case
  proof (cases r)
    case (Inl thrown)
    have step: "processStore e plat (w, visited, c) st =
        (w1, visited @ [st\<lparr>subscribers := subs1\<rparr>], c\<lparr>failureCount := failureCount c + 1\<rparr>)"
      using p Inl by (simp add: processStore_def)
    show ?thesis
      using Cons.IH [of w1 "visited @ [st\<lparr>subscribers := subs1\<rparr>]"
          "c\<lparr>failureCount := failureCount c + 1\<rparr>"] p Inl
      by (auto simp: step alertsOf_def isFailure_def)
  next
    case (Inr alerts)
    show ?thesis
    proof (cases "alerts > 0")
      case True
      have step: "processStore e plat (w, visited, c) st =
          (w1, visited @ [st\<lparr>subscribers := subs1\<rparr>],
           c\<lparr>successCount := successCount c + 1,
             totalAlertsSent := totalAlertsSent c + alerts\<rparr>)"
        using p Inr True by (simp add: processStore_def)
      show ?thesis
        using Cons.IH [of w1 "visited @ [st\<lparr>subscribers := subs1\<rparr>]"
            "c\<lparr>successCount := successCount c + 1,
               totalAlertsSent := totalAlertsSent c + alerts\<rparr>"] p Inr True
        by (auto simp: step alertsOf_def isFailure_def)
    next
      case False
      have step: "processStore e plat (w, visited, c) st =
          (w1, visited @ [st\<lparr>subscribers := subs1\<rparr>], c)"
        using p Inr False by (simp add: processStore_def)
      show ?thesis
        using Cons.IH [of w1 "visited @ [st\<lparr>subscribers := subs1\<rparr>]" c] p Inr False
        by (auto simp: step alertsOf_def isFailure_def)
    qed
  qed
qed

lemma length_storeOutcomes: "length (storeOutcomes e plat w stores) = length stores"
  by (induction stores arbitrary: w) (auto split: prod.splits)

text \<open>
  Claim C4. When the stores can be listed, the run returns its statistics, whatever
  happens in the stores: every store of the list has an outcome, the failure count is the
  number of stores whose processing threw, the success count the number of stores with at
  least one alert sent, and the total the sum of the alerts sent.
\<close>

theorem store_failure_is_counted_and_run_continues:
  assumes "firestore e w ListStores = (True, w1)"
  shows "\<exists>w' visited.
     dailyTelegramAlerts e plat w stores =
       (Inr \<lparr>run_success = True,
             totalAlertsSent = sum_list (map alertsOf (storeOutcomes e plat w1 stores)),
             successCount = length (filter (\<lambda>r. 0 < alertsOf r) (storeOutcomes e plat w1 stores)),
             failureCount = length (filter isFailure (storeOutcomes e plat w1 stores))\<rparr>,
        w', visited)
     \<and> length visited = length stores
     \<and> length (storeOutcomes e plat w1 stores) = length stores"
  using assms foldl_processStore [of e plat w1 "[]"
      "\<lparr>run_success = True, totalAlertsSent = 0, successCount = 0, failureCount = 0\<rparr>" stores]
  by (auto simp: dailyTelegramAlerts_def length_storeOutcomes)

lemma demo_outcomes:
  "storeOutcomes faultyEnv demoPlatform \<lparr>world_time = demoNow + 10, world_sent = []\<rparr>
     [shop1, shop2, shop3] = [Inr 1, Inl firestoreError, Inr 0]"
  by code_simp

text \<open>
  Three stores, the second of which fails when its inventory is read: one failure, and
  the third store is still processed.
\<close>

theorem run_continues_witness:
  "fst (dailyTelegramAlerts faultyEnv demoPlatform demoWorld [shop1, shop2, shop3]) =
     Inr \<lparr>run_success = True, totalAlertsSent = 1, successCount = 1, failureCount = 1\<rparr>"
proof -
  have l: "firestore faultyEnv demoWorld ListStores =
      (True, \<lparr>world_time = demoNow + 10, world_sent = []\<rparr>)"
    by (simp add: faultyEnv_def demoEnv_def demoWorld_def)
  show ?thesis
    using store_failure_is_counted_and_run_continues
      [OF l, of demoPlatform "[shop1, shop2, shop3]", unfolded demo_outcomes]
    by (auto simp: alertsOf_def isFailure_def)
qed

end
